theory Spec2Isabelle
  imports Main
begin

section \<open>JavaScript values\<close>

text \<open>
  The values that flow through \<^verbatim>\<open>ParseConfig.js\<close>: backend responses, stored
  snapshots after \<^verbatim>\<open>JSON.parse\<close>, decoded attribute values. Numbers are
  integer-valued here; the module only ever tests them for truthiness.
  \<open>JObj ps\<close> is a plain object (its prototype is \<^verbatim>\<open>Object.prototype\<close>) and lists
  its own enumerable properties in the order in which \<^verbatim>\<open>for (k in obj)\<close> visits
  them; a lookup takes the first entry of a key. \<open>JFun\<close> and \<open>JHost\<close> are the
  built-in functions and objects of the host, by name: the module meets them when a
  property read ends in \<^verbatim>\<open>Object.prototype\<close>. Their own properties are not
  listed; the collaborators exchange data values.
\<close>

datatype jsval =
    JUndefined
  | JNull
  | JBool bool
  | JNum int
  | JStr string
  | JArr "jsval list"
  | JObj "(string \<times> jsval) list"
  | JFun string
  | JHost string

text \<open>The truth value of \<^verbatim>\<open>if (v)\<close> and \<^verbatim>\<open>!v\<close>.\<close>

fun truthy :: "jsval \<Rightarrow> bool" where
  "truthy JUndefined = False"
| "truthy JNull = False"
| "truthy (JBool b) = b"
| "truthy (JNum n) = (n \<noteq> 0)"
| "truthy (JStr s) = (s \<noteq> [])"
| "truthy (JArr xs) = True"
| "truthy (JObj ps) = True"
| "truthy (JFun f) = True"
| "truthy (JHost h) = True"

fun typeof :: "jsval \<Rightarrow> string" where
  "typeof JUndefined = ''undefined''"
| "typeof JNull = ''object''"
| "typeof (JBool b) = ''boolean''"
| "typeof (JNum n) = ''number''"
| "typeof (JStr s) = ''string''"
| "typeof (JArr xs) = ''object''"
| "typeof (JObj ps) = ''object''"
| "typeof (JFun f) = ''function''"
| "typeof (JHost h) = ''object''"

text \<open>\<^verbatim>\<open>v != null\<close> is false exactly for \<^verbatim>\<open>null\<close> and \<^verbatim>\<open>undefined\<close>.\<close>

fun nullish :: "jsval \<Rightarrow> bool" where
  "nullish JUndefined = True"
| "nullish JNull = True"
| "nullish v = False"

text \<open>
  A JavaScript object in the sense of the spec: a value whose \<^verbatim>\<open>typeof\<close> is
  \<^verbatim>\<open>"object"\<close> and that is not \<^verbatim>\<open>null\<close>.
\<close>

fun is_object :: "jsval \<Rightarrow> bool" where
  "is_object (JArr xs) = True"
| "is_object (JObj ps) = True"
| "is_object (JHost h) = True"
| "is_object v = False"

text \<open>
  A value of the language type Object (functions included): what the setter of
  \<^verbatim>\<open>__proto__\<close> accepts as a prototype, besides \<^verbatim>\<open>null\<close>.
\<close>

fun is_reference :: "jsval \<Rightarrow> bool" where
  "is_reference (JArr xs) = True"
| "is_reference (JObj ps) = True"
| "is_reference (JFun f) = True"
| "is_reference (JHost h) = True"
| "is_reference v = False"

subsection \<open>Property access\<close>

text \<open>Decimal digits; \<open>digit_char\<close> is only applied to numbers below ten.\<close>

definition digit_char :: "nat \<Rightarrow> char" where
  "digit_char d = ''0123456789'' ! d"

function show_nat :: "nat \<Rightarrow> string" where
  "show_nat n = (if n < 10 then [digit_char n] else show_nat (n div 10) @ [digit_char (n mod 10)])"
  by pat_completeness auto
termination
  by (relation "measure (\<lambda>n. n)") auto

text \<open>The index keys \<^verbatim>\<open>"0"\<close>, \<^verbatim>\<open>"1"\<close>, ... of an array or string of length \<open>n\<close>.\<close>

definition index_keys :: "nat \<Rightarrow> string list" where
  "index_keys n = map show_nat [0..<n]"

text \<open>The keys \<^verbatim>\<open>for (k in v)\<close> visits, in order.\<close>

fun enum_keys :: "jsval \<Rightarrow> string list" where
  "enum_keys (JObj ps) = remdups (map fst ps)"
| "enum_keys (JArr xs) = index_keys (length xs)"
| "enum_keys (JStr s) = index_keys (length s)"
| "enum_keys v = []"

text \<open>The own properties of a value that is neither \<^verbatim>\<open>null\<close> nor \<^verbatim>\<open>undefined\<close>.\<close>

fun own_props :: "jsval \<Rightarrow> string \<rightharpoonup> jsval" where
  "own_props (JObj ps) = map_of ps"
| "own_props (JArr xs) =
     (map_of (zip (index_keys (length xs)) xs))(''length'' \<mapsto> JNum (int (length xs)))"
| "own_props (JStr s) =
     (map_of (zip (index_keys (length s)) (map (\<lambda>c. JStr [c]) s)))(''length'' \<mapsto> JNum (int (length s)))"
| "own_props v = Map.empty"

text \<open>
  A read \<^verbatim>\<open>v[k]\<close> that is answered by an own property of \<^verbatim>\<open>v\<close>, for a value
  that is neither \<^verbatim>\<open>null\<close> nor \<^verbatim>\<open>undefined\<close>. The module reads the response
  this way at \<^verbatim>\<open>params\<close>, a name no prototype of the host defines, and reads
  \<^verbatim>\<open>response.params\<close> at the keys its \<^verbatim>\<open>for\<close> loop visits, which are own
  keys. Every use below sits behind the guard the source has.
\<close>

definition get_prop :: "jsval \<Rightarrow> string \<Rightarrow> jsval" where
  "get_prop v k = (case own_props v k of None \<Rightarrow> JUndefined | Some x \<Rightarrow> x)"

subsection \<open>The prototype of plain objects\<close>

text \<open>
  What a plain object (\<^verbatim>\<open>{}\<close>, or an object made by \<^verbatim>\<open>JSON.parse\<close>) finds
  through its prototype when it has no own property of that name: the methods of
  \<^verbatim>\<open>Object.prototype\<close> and, under \<^verbatim>\<open>__proto__\<close>, that prototype itself.
\<close>

definition Object_prototype :: "string \<rightharpoonup> jsval" where
  "Object_prototype = map_of
     [(''constructor'', JFun ''Object''),
      (''__defineGetter__'', JFun ''Object.prototype.__defineGetter__''),
      (''__defineSetter__'', JFun ''Object.prototype.__defineSetter__''),
      (''hasOwnProperty'', JFun ''Object.prototype.hasOwnProperty''),
      (''__lookupGetter__'', JFun ''Object.prototype.__lookupGetter__''),
      (''__lookupSetter__'', JFun ''Object.prototype.__lookupSetter__''),
      (''isPrototypeOf'', JFun ''Object.prototype.isPrototypeOf''),
      (''propertyIsEnumerable'', JFun ''Object.prototype.propertyIsEnumerable''),
      (''toString'', JFun ''Object.prototype.toString''),
      (''valueOf'', JFun ''Object.prototype.valueOf''),
      (''__proto__'', JHost ''Object.prototype''),
      (''toLocaleString'', JFun ''Object.prototype.toLocaleString'')]"

text \<open>
  The prototype of the object that \<^verbatim>\<open>get()\<close> fills: \<^verbatim>\<open>Object.prototype\<close> at
  first; an assignment to \<^verbatim>\<open>__proto__\<close> can replace it by \<^verbatim>\<open>null\<close> or by an
  object.
\<close>

datatype proto = ObjectPrototype | NullPrototype | ValuePrototype jsval

section \<open>Errors and promises\<close>

datatype ParseErrorCode = INVALID_JSON

text \<open>
  \<open>ParseError\<close> is the error the module constructs itself; \<open>Thrown\<close> is anything a
  collaborator or the host throws or rejects with (a failed request, a storage
  failure, a \<^verbatim>\<open>SyntaxError\<close> of \<^verbatim>\<open>JSON.parse\<close>, an exception of \<^verbatim>\<open>decode\<close>, a
  \<^verbatim>\<open>TypeError\<close> of a call on something that is not a function).
\<close>

datatype error = ParseError ParseErrorCode string | Thrown string

text \<open>
  A promise is represented by how it settles: \<open>Inl e\<close> is a rejection with \<open>e\<close>,
  \<open>Inr x\<close> a resolution with \<open>x\<close>. A continuation attached with \<^verbatim>\<open>then\<close> runs on
  \<open>Inr\<close> only; nothing else is interleaved between a promise and its continuation.
\<close>

type_synonym 'a promise = "error + 'a"

text \<open>What \<^verbatim>\<open>current()\<close> hands back: a value now, or a promise.\<close>

datatype 'a completion = Returned 'a | Promised "'a promise"

section \<open>The collaborators\<close>

text \<open>
  \<^verbatim>\<open>ParseConfig.js\<close> imports \<^verbatim>\<open>decode\<close>, \<^verbatim>\<open>escape\<close>, \<^verbatim>\<open>Storage\<close> and the REST
  controller of \<^verbatim>\<open>CoreManager\<close>, and uses \<^verbatim>\<open>JSON\<close> and \<^verbatim>\<open>toString\<close> of the
  host. They are parameters of the model, typed by the way the module uses them:
  \<^verbatim>\<open>JSON.parse\<close> and \<^verbatim>\<open>decode\<close> may throw (the module wraps them in
  \<^verbatim>\<open>try\<close>/\<^verbatim>\<open>catch\<close>), the asynchronous storage operations and the request may
  reject. \<open>toString\<close> is the string conversion the host's built-in \<^verbatim>\<open>toString\<close>
  methods perform; it may throw as well. \<open>host_inherited\<close> gives what a value that
  is not a plain object (an array, a string, a number, ...) finds through the
  prototype chain of its class. \<open>'st\<close> is the state of the storage backend.
\<close>

record 'st env =
  decode :: "jsval \<Rightarrow> error + jsval"
  escape :: "string \<Rightarrow> string"
  toString :: "jsval \<Rightarrow> error + string"
  host_inherited :: "jsval \<Rightarrow> string \<rightharpoonup> jsval"
  JSON_parse :: "string \<Rightarrow> error + jsval"
  JSON_stringify :: "jsval \<Rightarrow> string"
  Storage_async :: bool
  Storage_generatePath :: "string \<Rightarrow> string"
  Storage_getItem :: "'st \<Rightarrow> string \<Rightarrow> string option"
  Storage_getItemAsync :: "'st \<Rightarrow> string \<Rightarrow> string option promise"
  Storage_setItemAsync :: "'st \<Rightarrow> string \<Rightarrow> string \<Rightarrow> 'st promise"
  RESTController_request :: "string \<Rightarrow> string \<Rightarrow> jsval \<Rightarrow> jsval \<Rightarrow> jsval promise"

section \<open>Objects used as mappings\<close>

text \<open>What a value finds through its prototype chain, past its own properties.\<close>

definition inherited_props :: "'st env \<Rightarrow> jsval \<Rightarrow> string \<rightharpoonup> jsval" where
  "inherited_props env v = (case v of JObj ps \<Rightarrow> Object_prototype | _ \<Rightarrow> host_inherited env v)"

text \<open>
  What an object with the given prototype finds through it. Under
  \<^verbatim>\<open>__proto__\<close> the getter of \<^verbatim>\<open>Object.prototype\<close> answers with the prototype
  of the object that is read, unless an own property of that name comes first.
\<close>

fun proto_props :: "'st env \<Rightarrow> proto \<Rightarrow> string \<rightharpoonup> jsval" where
  "proto_props env ObjectPrototype = Object_prototype"
| "proto_props env NullPrototype = Map.empty"
| "proto_props env (ValuePrototype v) =
     (\<lambda>k. case own_props v k of
            Some x \<Rightarrow> Some x
          | None \<Rightarrow> if k = ''__proto__'' then Some v else inherited_props env v k)"

text \<open>
  Whether an assignment to \<^verbatim>\<open>__proto__\<close> on an object with this prototype and
  no own property of that name reaches the setter of \<^verbatim>\<open>Object.prototype\<close>.
\<close>

fun setter_reachable :: "proto \<Rightarrow> bool" where
  "setter_reachable ObjectPrototype = True"
| "setter_reachable NullPrototype = False"
| "setter_reachable (ValuePrototype v) = (own_props v ''__proto__'' = None)"

text \<open>
  The assignment \<^verbatim>\<open>config.attributes[attr] = v\<close> on an object given by its own
  properties and its prototype. The setter of \<^verbatim>\<open>__proto__\<close> replaces the
  prototype when \<^verbatim>\<open>v\<close> is \<^verbatim>\<open>null\<close> or an object and does nothing otherwise;
  every other assignment makes an own property.
\<close>

definition assign_attribute ::
  "(string \<rightharpoonup> jsval) \<times> proto \<Rightarrow> string \<Rightarrow> jsval \<Rightarrow> (string \<rightharpoonup> jsval) \<times> proto" where
  "assign_attribute obj attr v =
     (let (own, p) = obj in
      if attr = ''__proto__'' \<and> own attr = None \<and> setter_reachable p then
        (if v = JNull then (own, NullPrototype)
         else if is_reference v then (own, ValuePrototype v)
         else (own, p))
      else (own(attr \<mapsto> v), p))"

section \<open>The class ParseConfig\<close>

text \<open>
  \<^verbatim>\<open>this.attributes\<close> and \<^verbatim>\<open>this._escapedAttributes\<close> are objects used as
  mappings. \<open>attributes\<close> holds the own properties of \<^verbatim>\<open>this.attributes\<close> and
  \<open>attributesPrototype\<close> what that object finds through its prototype chain;
  \<open>escapedAttributes\<close> holds the own properties of \<^verbatim>\<open>this._escapedAttributes\<close>,
  an object whose prototype is always \<^verbatim>\<open>Object.prototype\<close>.
\<close>

record ParseConfig =
  attributes :: "string \<rightharpoonup> jsval"
  attributesPrototype :: "string \<rightharpoonup> jsval"
  escapedAttributes :: "string \<rightharpoonup> string"

text \<open>The constructor: both fields are \<^verbatim>\<open>{}\<close>.\<close>

definition new_ParseConfig :: ParseConfig where
  "new_ParseConfig =
     \<lparr>attributes = Map.empty, attributesPrototype = Object_prototype,
      escapedAttributes = Map.empty\<rparr>"

text \<open>\<^verbatim>\<open>get(attr)\<close>: \<^verbatim>\<open>return this.attributes[attr]\<close>.\<close>

definition ParseConfig_get :: "ParseConfig \<Rightarrow> string \<Rightarrow> jsval" where
  "ParseConfig_get this attr =
     (case attributes this attr of
        Some v \<Rightarrow> v
      | None \<Rightarrow> (case attributesPrototype this attr of Some v \<Rightarrow> v | None \<Rightarrow> JUndefined))"

text \<open>The read \<^verbatim>\<open>this._escapedAttributes[attr]\<close>.\<close>

definition escaped_lookup :: "ParseConfig \<Rightarrow> string \<Rightarrow> jsval" where
  "escaped_lookup this attr =
     (case escapedAttributes this attr of
        Some s \<Rightarrow> JStr s
      | None \<Rightarrow> (case Object_prototype attr of Some v \<Rightarrow> v | None \<Rightarrow> JUndefined))"

text \<open>
  The assignment \<^verbatim>\<open>this._escapedAttributes[attr] = escaped\<close>. At \<^verbatim>\<open>__proto__\<close>,
  without an own property of that name, it reaches the setter of
  \<^verbatim>\<open>Object.prototype\<close>, which ignores a string.
\<close>

definition escaped_assign ::
  "(string \<rightharpoonup> string) \<Rightarrow> string \<Rightarrow> string \<Rightarrow> (string \<rightharpoonup> string)" where
  "escaped_assign cache attr escaped =
     (if attr = ''__proto__'' \<and> cache attr = None then cache else cache(attr \<mapsto> escaped))"

text \<open>
  The call \<^verbatim>\<open>val.toString()\<close> on a value that is neither \<^verbatim>\<open>null\<close> nor
  \<^verbatim>\<open>undefined\<close>: an own property \<^verbatim>\<open>toString\<close> that is not a function makes
  the call a \<^verbatim>\<open>TypeError\<close>; otherwise the conversion of the host runs.
\<close>

definition call_toString :: "'st env \<Rightarrow> jsval \<Rightarrow> error + string" where
  "call_toString env val =
     (case own_props val ''toString'' of
        None \<Rightarrow> toString env val
      | Some m \<Rightarrow> (case m of JFun f \<Rightarrow> toString env val | _ \<Rightarrow> Inl (Thrown ''TypeError'')))"

text \<open>
  \<^verbatim>\<open>escape(attr)\<close>. The result is what the call returns (\<open>Inr\<close>) or throws
  (\<open>Inl\<close>), the instance after the call, and the arguments with which the call
  invoked the imported \<^verbatim>\<open>escape\<close> function (what a spy on that function records).
  \<open>escape_miss\<close> is the part of the method after the test \<^verbatim>\<open>if (html)\<close>.
\<close>

definition escape_miss ::
  "'st env \<Rightarrow> ParseConfig \<Rightarrow> string \<Rightarrow> (error + jsval) \<times> ParseConfig \<times> string list" where
  "escape_miss env this attr =
     (let val = ParseConfig_get this attr in
      if \<not> nullish val then
        (case call_toString env val of
           Inl e \<Rightarrow> (Inl e, this, [])
         | Inr str \<Rightarrow>
             (Inr (JStr (escape env str)),
              this\<lparr>escapedAttributes :=
                     escaped_assign (escapedAttributes this) attr (escape env str)\<rparr>,
              [str]))
      else
        (Inr (JStr []),
         this\<lparr>escapedAttributes := escaped_assign (escapedAttributes this) attr []\<rparr>,
         []))"

definition ParseConfig_escape ::
  "'st env \<Rightarrow> ParseConfig \<Rightarrow> string \<Rightarrow> (error + jsval) \<times> ParseConfig \<times> string list" where
  "ParseConfig_escape env this attr =
     (let html = escaped_lookup this attr in
      if truthy html then (Inr html, this, []) else escape_miss env this attr)"

text \<open>
  Calling \<^verbatim>\<open>escape(attr)\<close> twice in a row: both outcomes, and all the spy recorded.
\<close>

definition escape_twice ::
  "'st env \<Rightarrow> ParseConfig \<Rightarrow> string \<Rightarrow> (error + jsval) \<times> (error + jsval) \<times> string list" where
  "escape_twice env this attr =
     (let (r1, this1, spied1) = ParseConfig_escape env this attr;
          (r2, this2, spied2) = ParseConfig_escape env this1 attr
      in (r1, r2, spied1 @ spied2))"

text \<open>
  The instances the module makes: a constructor call followed by the assignment of
  \<^verbatim>\<open>attributes\<close> (as \<^verbatim>\<open>current()\<close> and \<^verbatim>\<open>get()\<close> do; any mapping over any
  prototype), then any number of \<^verbatim>\<open>escape\<close> calls. Nothing in the module changes
  \<^verbatim>\<open>attributes\<close> after that.
\<close>

inductive config_instance :: "'st env \<Rightarrow> ParseConfig \<Rightarrow> bool" for env :: "'st env" where
  constructed: "config_instance env (new_ParseConfig\<lparr>attributes := a, attributesPrototype := p\<rparr>)"
| escaped: "config_instance env c \<Longrightarrow> ParseConfig_escape env c attr = (r, c', spied)
     \<Longrightarrow> config_instance env c'"

text \<open>
  The escape cache is derived state: every cached entry is what \<^verbatim>\<open>escape\<close>
  computes from the attribute of that name.
\<close>

definition cache_consistent :: "'st env \<Rightarrow> ParseConfig \<Rightarrow> bool" where
  "cache_consistent env c =
     (\<forall>attr s. escapedAttributes c attr = Some s \<longrightarrow>
        (if nullish (ParseConfig_get c attr) then s = []
         else \<exists>str. call_toString env (ParseConfig_get c attr) = Inr str \<and> s = escape env str))"

section \<open>The process-wide state\<close>

text \<open>The calls the module makes on the storage backend and the REST controller.\<close>

datatype call =
    GetItem string
  | GetItemAsync string
  | SetItemAsync string string
  | Request string string jsval jsval

text \<open>
  \<open>currentConfig\<close> is the module variable of that name (\<open>None\<close> is \<^verbatim>\<open>null\<close>),
  \<open>storage\<close> the state of the storage backend, \<open>calls\<close> the log of calls made so far.
\<close>

record 'st world =
  currentConfig :: "ParseConfig option"
  storage :: 'st
  calls :: "call list"

definition CURRENT_CONFIG_KEY :: string where
  "CURRENT_CONFIG_KEY = ''currentConfig''"

text \<open>
  \<^verbatim>\<open>decodePayload\<close>: \<^verbatim>\<open>null\<close> from the \<^verbatim>\<open>catch\<close>, \<^verbatim>\<open>undefined\<close> when the
  function falls off its end, otherwise what \<^verbatim>\<open>decode\<close> returned.
\<close>

definition decodePayload :: "'st env \<Rightarrow> string \<Rightarrow> jsval" where
  "decodePayload env data =
     (case JSON_parse env data of
        Inl e \<Rightarrow> JNull
      | Inr json \<Rightarrow>
          if truthy json \<and> typeof json = ''object'' then
            (case decode env json of Inl e \<Rightarrow> JNull | Inr v \<Rightarrow> v)
          else JUndefined)"

section \<open>DefaultController\<close>

text \<open>
  The static methods \<^verbatim>\<open>ParseConfig.current()\<close> and \<^verbatim>\<open>ParseConfig.get()\<close> call
  the controller registered with \<^verbatim>\<open>CoreManager\<close>, which the module sets to
  \<^verbatim>\<open>DefaultController\<close>; its two methods are modelled here.
\<close>

text \<open>
  The block \<^verbatim>\<open>if (configData) { ... } return config\<close>, which \<^verbatim>\<open>current()\<close> has
  twice: after the synchronous read and in the continuation of the asynchronous one.
\<close>

definition load_snapshot ::
  "'st env \<Rightarrow> string option \<Rightarrow> ParseConfig \<Rightarrow> 'st world \<Rightarrow> ParseConfig \<times> 'st world" where
  "load_snapshot env configData config w =
     (case configData of
        None \<Rightarrow> (config, w)
      | Some d \<Rightarrow>
          if d = [] then (config, w)
          else
            let attrs = decodePayload env d in
            if truthy attrs then
              let config' = config\<lparr>attributes := own_props attrs,
                                   attributesPrototype := inherited_props env attrs\<rparr>
              in (config', w\<lparr>currentConfig := Some config'\<rparr>)
            else (config, w))"

definition DefaultController_current ::
  "'st env \<Rightarrow> 'st world \<Rightarrow> ParseConfig completion \<times> 'st world" where
  "DefaultController_current env w =
     (case currentConfig w of
        Some c \<Rightarrow> (Returned c, w)
      | None \<Rightarrow>
          let config = new_ParseConfig;
              storagePath = Storage_generatePath env CURRENT_CONFIG_KEY
          in
          if \<not> Storage_async env then
            let configData = Storage_getItem env (storage w) storagePath;
                w1 = w\<lparr>calls := calls w @ [GetItem storagePath]\<rparr>;
                (config', w2) = load_snapshot env configData config w1
            in (Returned config', w2)
          else
            let w1 = w\<lparr>calls := calls w @ [GetItemAsync storagePath]\<rparr> in
            (case Storage_getItemAsync env (storage w) storagePath of
               Inl e \<Rightarrow> (Promised (Inl e), w1)
             | Inr configData \<Rightarrow>
                 let (config', w2) = load_snapshot env configData config w1
                 in (Promised (Inr config'), w2)))"

text \<open>
  The loop \<^verbatim>\<open>for (var attr in response.params)\<close> of \<^verbatim>\<open>get()\<close>, over the keys still
  to visit and the object filled so far. An exception of \<^verbatim>\<open>decode\<close> ends it.
\<close>

fun decode_fields ::
  "'st env \<Rightarrow> jsval \<Rightarrow> string list \<Rightarrow> (string \<rightharpoonup> jsval) \<times> proto
     \<Rightarrow> error + (string \<rightharpoonup> jsval) \<times> proto" where
  "decode_fields env params [] obj = Inr obj"
| "decode_fields env params (attr # rest) obj =
     (case decode env (get_prop params attr) of
        Inl e \<Rightarrow> Inl e
      | Inr v \<Rightarrow> decode_fields env params rest (assign_attribute obj attr v))"

definition DefaultController_get ::
  "'st env \<Rightarrow> 'st world \<Rightarrow> ParseConfig promise \<times> 'st world" where
  "DefaultController_get env w =
     (let w1 = w\<lparr>calls := calls w @ [Request ''GET'' ''config'' (JObj []) (JObj [])]\<rparr> in
      case RESTController_request env ''GET'' ''config'' (JObj []) (JObj []) of
        Inl e \<Rightarrow> (Inl e, w1)
      | Inr response \<Rightarrow>
          if \<not> truthy response \<or> \<not> truthy (get_prop response ''params'') then
            (Inl (ParseError INVALID_JSON ''Config JSON response invalid.''), w1)
          else
            let params = get_prop response ''params'' in
            (case decode_fields env params (enum_keys params) (Map.empty, ObjectPrototype) of
               Inl e \<Rightarrow> (Inl e, w1)
             | Inr (attrs, p) \<Rightarrow>
                 let config = new_ParseConfig\<lparr>attributes := attrs,
                                attributesPrototype := proto_props env p\<rparr>;
                     w2 = w1\<lparr>currentConfig := Some config\<rparr>;
                     storagePath = Storage_generatePath env CURRENT_CONFIG_KEY;
                     snapshot = JSON_stringify env params;
                     w3 = w2\<lparr>calls := calls w2 @ [SetItemAsync storagePath snapshot]\<rparr>
                 in
                 (case Storage_setItemAsync env (storage w) storagePath snapshot of
                    Inl e \<Rightarrow> (Inl e, w3)
                  | Inr st' \<Rightarrow> (Inr config, w3\<lparr>storage := st'\<rparr>))))"

section \<open>An example environment\<close>

text \<open>
  Concrete collaborators on which the definitions above can be run: a storage backend
  kept in memory, and stand-ins for the host functions and the imported utilities.
\<close>

text \<open>
  Modelled from the spec: \<^verbatim>\<open>escape.js\<close> is not among the sources; the spec calls
  it HTML-escaping. Here the characters \<^verbatim>\<open>& < > / ' "\<close> are replaced by their
  entities and every other character is kept.
\<close>

definition html_escape_char :: "char \<Rightarrow> string" where
  "html_escape_char c =
     (if c = CHR ''&'' then ''&amp;''
      else if c = CHR ''<'' then ''&lt;''
      else if c = CHR ''>'' then ''&gt;''
      else if c = CHR ''/'' then ''&#x2F;''
      else if c = CHR 0x27 then ''&#x27;''
      else if c = CHR 0x22 then ''&quot;''
      else [c])"

definition html_escape :: "string \<Rightarrow> string" where
  "html_escape s = concat (map html_escape_char s)"

text \<open>
  String conversion of the host for the values of \<open>jsval\<close>. Inside an array,
  \<^verbatim>\<open>null\<close> and \<^verbatim>\<open>undefined\<close> give the empty string, and an element with an
  own \<^verbatim>\<open>toString\<close> that is not a function cannot be converted.
\<close>

definition show_int :: "int \<Rightarrow> string" where
  "show_int i = (if i < 0 then CHR ''-'' # show_nat (nat (- i)) else show_nat (nat i))"

fun join_comma :: "string list \<Rightarrow> string" where
  "join_comma [] = []"
| "join_comma [s] = s"
| "join_comma (s # t # ss) = s @ '','' @ join_comma (t # ss)"

fun js_toString :: "jsval \<Rightarrow> error + string"
  and js_toStrings :: "jsval list \<Rightarrow> error + string list" where
  "js_toString JUndefined = Inl (Thrown ''TypeError'')"
| "js_toString JNull = Inl (Thrown ''TypeError'')"
| "js_toString (JBool b) = Inr (if b then ''true'' else ''false'')"
| "js_toString (JNum n) = Inr (show_int n)"
| "js_toString (JStr s) = Inr s"
| "js_toString (JArr xs) =
     (case js_toStrings xs of Inl e \<Rightarrow> Inl e | Inr ss \<Rightarrow> Inr (join_comma ss))"
| "js_toString (JObj ps) = Inr ''[object Object]''"
| "js_toString (JFun f) = Inr (''function '' @ f @ ''() { [native code] }'')"
| "js_toString (JHost h) = Inr ''[object Object]''"
| "js_toStrings [] = Inr []"
| "js_toStrings (x # xs) =
     (case (if nullish x then Inr []
            else (case own_props x ''toString'' of
                    None \<Rightarrow> js_toString x
                  | Some m \<Rightarrow> (case m of JFun f \<Rightarrow> js_toString x
                                         | _ \<Rightarrow> Inl (Thrown ''TypeError'')))) of
        Inl e \<Rightarrow> Inl e
      | Inr s \<Rightarrow> (case js_toStrings xs of Inl e \<Rightarrow> Inl e | Inr ss \<Rightarrow> Inr (s # ss)))"

text \<open>
  In the example host a value that is not a plain object finds through its
  prototype chain what \<^verbatim>\<open>Object.prototype\<close> provides; the methods of its own
  class are left out.
\<close>

definition example_inherited :: "jsval \<Rightarrow> string \<rightharpoonup> jsval" where
  "example_inherited v = Object_prototype"

text \<open>
  \<^verbatim>\<open>JSON.stringify\<close> on objects whose values are numbers and strings without
  special characters, which is all the examples serialise.
\<close>

fun json_atom :: "jsval \<Rightarrow> string" where
  "json_atom (JNum n) = show_int n"
| "json_atom (JStr s) = [CHR 0x22] @ s @ [CHR 0x22]"
| "json_atom (JBool b) = (if b then ''true'' else ''false'')"
| "json_atom v = ''null''"

fun example_stringify :: "jsval \<Rightarrow> string" where
  "example_stringify (JObj ps) =
     ''{'' @ join_comma (map (\<lambda>(k, v). [CHR 0x22] @ k @ [CHR 0x22] @ '':'' @ json_atom v) ps) @ ''}''"
| "example_stringify v = json_atom v"

text \<open>The snapshot \<^verbatim>\<open>{"a":1}\<close> as a string.\<close>

definition snapshot_a1 :: string where
  "snapshot_a1 = [CHR ''{'', CHR 0x22, CHR ''a'', CHR 0x22, CHR '':'', CHR ''1'', CHR ''}'']"

text \<open>
  \<^verbatim>\<open>JSON.parse\<close> cut down to the few texts the examples store; any other text
  counts as malformed here.
\<close>

definition example_parse :: "string \<Rightarrow> error + jsval" where
  "example_parse s =
     (if s = snapshot_a1 then Inr (JObj [(''a'', JNum 1)])
      else if s = ''5'' then Inr (JNum 5)
      else if s = ''null'' then Inr JNull
      else Inl (Thrown ''SyntaxError''))"

text \<open>The storage backend: an association list from paths to stored strings.\<close>

type_synonym mem_storage = "(string \<times> string) list"

definition mem_setItem :: "mem_storage \<Rightarrow> string \<Rightarrow> string \<Rightarrow> mem_storage" where
  "mem_setItem st k v = (k, v) # filter (\<lambda>p. fst p \<noteq> k) st"

text \<open>The response \<^verbatim>\<open>{ params: { "a": 1, "b": "x" } }\<close>.\<close>

definition example_response :: jsval where
  "example_response = JObj [(''params'', JObj [(''a'', JNum 1), (''b'', JStr ''x'')])]"

definition example_env :: "mem_storage env" where
  "example_env =
     \<lparr>decode = Inr,
      escape = html_escape,
      toString = js_toString,
      host_inherited = example_inherited,
      JSON_parse = example_parse,
      JSON_stringify = example_stringify,
      Storage_async = False,
      Storage_generatePath = (\<lambda>k. ''Parse/app/'' @ k),
      Storage_getItem = map_of,
      Storage_getItemAsync = (\<lambda>st k. Inr (map_of st k)),
      Storage_setItemAsync = (\<lambda>st k v. Inr (mem_setItem st k v)),
      RESTController_request = (\<lambda>method path params options. Inr example_response)\<rparr>"

text \<open>The state at process start, over a given storage content.\<close>

definition initial_world :: "'st \<Rightarrow> 'st world" where
  "initial_world st = \<lparr>currentConfig = None, storage = st, calls = []\<rparr>"

text \<open>The text \<^verbatim>\<open>{"a":1,"b":"x"}\<close> as a string.\<close>

definition snapshot_a1_bx :: string where
  "snapshot_a1_bx =
     [CHR ''{'', CHR 0x22, CHR ''a'', CHR 0x22, CHR '':'', CHR ''1'', CHR '','',
      CHR 0x22, CHR ''b'', CHR 0x22, CHR '':'', CHR 0x22, CHR ''x'', CHR 0x22, CHR ''}'']"

text \<open>A backend whose response has no \<^verbatim>\<open>params\<close> field.\<close>

definition no_params_env :: "mem_storage env" where
  "no_params_env =
     example_env\<lparr>RESTController_request := (\<lambda>method path params options. Inr (JObj [(''result'', JNum 1)]))\<rparr>"

text \<open>A storage backend on which every write fails.\<close>

definition failing_storage_env :: "mem_storage env" where
  "failing_storage_env =
     example_env\<lparr>Storage_setItemAsync := (\<lambda>st k v. Inl (Thrown ''QuotaExceededError''))\<rparr>"

text \<open>The example environment over an asynchronous storage backend.\<close>

definition async_env :: "mem_storage env" where
  "async_env = example_env\<lparr>Storage_async := True\<rparr>"

text \<open>
  Three instances: an attribute that is the empty string, one that is \<^verbatim>\<open>null\<close>,
  and one that holds markup.
\<close>

definition empty_string_config :: ParseConfig where
  "empty_string_config = new_ParseConfig\<lparr>attributes := [''e'' \<mapsto> JStr '''']\<rparr>"

definition null_attr_config :: ParseConfig where
  "null_attr_config = new_ParseConfig\<lparr>attributes := [''n'' \<mapsto> JNull]\<rparr>"

definition markup_config :: ParseConfig where
  "markup_config = new_ParseConfig\<lparr>attributes := [''m'' \<mapsto> JStr ''<b>'']\<rparr>"

text \<open>An instance with an attribute whose own \<^verbatim>\<open>toString\<close> is not a function.\<close>

definition unprintable_config :: ParseConfig where
  "unprintable_config =
     new_ParseConfig\<lparr>attributes := [''u'' \<mapsto> JObj [(''toString'', JStr ''x'')]]\<rparr>"

text \<open>The params \<^verbatim>\<open>{"__proto__":5,"a":2}\<close>, and a backend that responds with them.\<close>

definition proto_params :: jsval where
  "proto_params = JObj [(''__proto__'', JNum 5), (''a'', JNum 2)]"

definition proto_params_env :: "mem_storage env" where
  "proto_params_env =
     example_env\<lparr>RESTController_request :=
       (\<lambda>method path params options. Inr (JObj [(''params'', proto_params)]))\<rparr>"

section \<open>Properties of the instance accessors\<close>

lemma Object_prototype_truthy: "Object_prototype k = Some v \<Longrightarrow> truthy v"
  by (auto simp: Object_prototype_def split: if_splits)

lemma params_not_inherited: "Object_prototype ''params'' = None"
  by (simp add: Object_prototype_def)

text \<open>
  C9, as stated, fails: on a fresh instance the name \<^verbatim>\<open>constructor\<close> is not in the
  attributes mapping, yet \<^verbatim>\<open>get("constructor")\<close> is not \<^verbatim>\<open>undefined\<close>: the read
  \<^verbatim>\<open>this.attributes[attr]\<close> goes on to \<^verbatim>\<open>Object.prototype\<close> and returns the
  function \<^verbatim>\<open>Object\<close>.
\<close>

theorem get_inherited_counterexample:
  "''constructor'' \<notin> dom (attributes new_ParseConfig)
   \<and> ParseConfig_get new_ParseConfig ''constructor'' = JFun ''Object''"
  by (simp add: new_ParseConfig_def ParseConfig_get_def Object_prototype_def)

text \<open>
  C9, amended. For every Config instance and every attribute name that is neither a
  key of its \<open>attributes\<close> mapping nor found through the prototype chain of that
  mapping (for a mapping the module builds on \<^verbatim>\<open>{}\<close>: the property names of
  \<^verbatim>\<open>Object.prototype\<close>), \<^verbatim>\<open>get(attr)\<close> returns \<^verbatim>\<open>undefined\<close>. The accessor is a
  function of the instance and the name alone: it returns a value and nothing else,
  so the instance after the call is the instance before it.
\<close>

theorem get_not_found_undefined:
  "attr \<notin> dom (attributes this) \<Longrightarrow> attr \<notin> dom (attributesPrototype this) \<Longrightarrow>
     ParseConfig_get this attr = JUndefined"
  by (auto simp: ParseConfig_get_def dom_def)

theorem get_not_found_undefined_witness:
  "''c'' \<notin> dom (attributes (new_ParseConfig\<lparr>attributes := [''a'' \<mapsto> JNum 1]\<rparr>))
   \<and> ''c'' \<notin> dom (attributesPrototype (new_ParseConfig\<lparr>attributes := [''a'' \<mapsto> JNum 1]\<rparr>))
   \<and> ParseConfig_get (new_ParseConfig\<lparr>attributes := [''a'' \<mapsto> JNum 1]\<rparr>) ''c'' = JUndefined"
proof -
  have own: "''c'' \<notin> dom (attributes (new_ParseConfig\<lparr>attributes := [''a'' \<mapsto> JNum 1]\<rparr>))"
    by simp
  have inh: "''c'' \<notin> dom (attributesPrototype (new_ParseConfig\<lparr>attributes := [''a'' \<mapsto> JNum 1]\<rparr>))"
    by (simp add: new_ParseConfig_def Object_prototype_def dom_def)
  from get_not_found_undefined [OF own inh] own inh show ?thesis by simp
qed

lemma escaped_lookup_own:
  "attr \<notin> dom Object_prototype \<Longrightarrow>
     escaped_lookup c attr = (case escapedAttributes c attr of Some s \<Rightarrow> JStr s | None \<Rightarrow> JUndefined)"
  by (auto simp: escaped_lookup_def dom_def split: option.splits)

lemma escaped_lookup_miss:
  assumes "\<not> truthy (escaped_lookup c attr)"
  shows "(escapedAttributes c attr = None \<and> Object_prototype attr = None)
       \<or> escapedAttributes c attr = Some []"
  using assms Object_prototype_truthy [of attr]
  by (auto simp: escaped_lookup_def split: option.splits)

lemma escaped_assign_after_miss:
  assumes "\<not> truthy (escaped_lookup c attr)"
  shows "escaped_assign (escapedAttributes c) attr s = (escapedAttributes c)(attr \<mapsto> s)"
proof -
  have "Object_prototype ''__proto__'' \<noteq> None"
    by (simp add: Object_prototype_def)
  then show ?thesis
    using escaped_lookup_miss [OF assms] by (auto simp: escaped_assign_def)
qed

lemma get_ignores_cache:
  "ParseConfig_get (c\<lparr>escapedAttributes := m\<rparr>) attr = ParseConfig_get c attr"
  by (simp add: ParseConfig_get_def split: option.splits)

text \<open>What a call that does not find a cached value returns, leaves behind and hands to the spy.\<close>

lemma escape_miss_result:
  assumes "\<not> truthy (escaped_lookup c attr)"
  shows "ParseConfig_escape env c attr =
     (if nullish (ParseConfig_get c attr) then
        (Inr (JStr []), c\<lparr>escapedAttributes := (escapedAttributes c)(attr \<mapsto> [])\<rparr>, [])
      else
        (case call_toString env (ParseConfig_get c attr) of
           Inl e \<Rightarrow> (Inl e, c, [])
         | Inr str \<Rightarrow>
             (Inr (JStr (escape env str)),
              c\<lparr>escapedAttributes := (escapedAttributes c)(attr \<mapsto> escape env str)\<rparr>,
              [str])))"
  using assms
  by (simp add: ParseConfig_escape_def escape_miss_def Let_def escaped_assign_after_miss
        split: sum.splits)

lemma escape_hit_result:
  assumes "truthy (escaped_lookup c attr)"
  shows "ParseConfig_escape env c attr = (Inr (escaped_lookup c attr), c, [])"
  using assms by (simp add: ParseConfig_escape_def Let_def)

lemma cache_consistentD:
  "cache_consistent env c \<Longrightarrow> escapedAttributes c attr = Some s \<Longrightarrow>
     (if nullish (ParseConfig_get c attr) then s = []
      else \<exists>str. call_toString env (ParseConfig_get c attr) = Inr str \<and> s = escape env str)"
  unfolding cache_consistent_def by blast

lemma cache_consistent_update:
  assumes "cache_consistent env c"
    and "if nullish (ParseConfig_get c attr) then s = []
         else \<exists>str. call_toString env (ParseConfig_get c attr) = Inr str \<and> s = escape env str"
  shows "cache_consistent env (c\<lparr>escapedAttributes := (escapedAttributes c)(attr \<mapsto> s)\<rparr>)"
  unfolding cache_consistent_def
proof (intro allI impI)
  fix a t
  assume cached: "escapedAttributes (c\<lparr>escapedAttributes := (escapedAttributes c)(attr \<mapsto> s)\<rparr>) a = Some t"
  show "if nullish (ParseConfig_get (c\<lparr>escapedAttributes := (escapedAttributes c)(attr \<mapsto> s)\<rparr>) a)
        then t = []
        else \<exists>str. call_toString env
                 (ParseConfig_get (c\<lparr>escapedAttributes := (escapedAttributes c)(attr \<mapsto> s)\<rparr>) a) = Inr str
               \<and> t = escape env str"
  proof (cases "a = attr")
    case True
    then have "t = s" using cached by simp
    then show ?thesis using assms(2) True by (simp only: get_ignores_cache)
  next
    case False
    then have "escapedAttributes c a = Some t" using cached by simp
    then show ?thesis
      using cache_consistentD [OF assms(1)] by (simp only: get_ignores_cache)
  qed
qed

lemma escape_preserves_consistency:
  assumes "cache_consistent env c" and "ParseConfig_escape env c attr = (r, c', spied)"
  shows "cache_consistent env c'"
proof (cases "truthy (escaped_lookup c attr)")
  case True
  then have "c' = c"
    using assms(2) by (simp add: escape_hit_result)
  then show ?thesis using assms(1) by simp
next
  case False
  note miss = escape_miss_result [OF False, of env]
  show ?thesis
  proof (cases "nullish (ParseConfig_get c attr)")
    case True
    then have "c' = c\<lparr>escapedAttributes := (escapedAttributes c)(attr \<mapsto> [])\<rparr>"
      using assms(2) miss by simp
    then show ?thesis
      using cache_consistent_update [OF assms(1), of attr "[]"] True by simp
  next
    case notnull: False
    show ?thesis
    proof (cases "call_toString env (ParseConfig_get c attr)")
      case (Inl e)
      then have "c' = c" using assms(2) miss notnull by simp
      then show ?thesis using assms(1) by simp
    next
      case (Inr str)
      then have "c' = c\<lparr>escapedAttributes := (escapedAttributes c)(attr \<mapsto> escape env str)\<rparr>"
        using assms(2) miss notnull by simp
      then show ?thesis
        using cache_consistent_update [OF assms(1), of attr "escape env str"] notnull Inr by simp
    qed
  qed
qed

lemma instance_consistent: "config_instance env c \<Longrightarrow> cache_consistent env c"
proof (induction rule: config_instance.induct)
  case (constructed a p)
  then show ?case by (simp add: cache_consistent_def new_ParseConfig_def)
next
  case (escaped c attr r c' spied)
  then show ?case using escape_preserves_consistency by blast
qed

lemma plain_instance: "config_instance env (new_ParseConfig\<lparr>attributes := a\<rparr>)"
  using config_instance.constructed [where a = a and p = Object_prototype, of env]
  by (simp add: new_ParseConfig_def)

text \<open>
  Every Config that \<^verbatim>\<open>current()\<close> and \<^verbatim>\<open>get()\<close> hand out or keep in the
  cache is an instance in the sense of \<open>config_instance\<close>.
\<close>

lemma new_instance: "config_instance env new_ParseConfig"
  using plain_instance [of env Map.empty] by (simp add: new_ParseConfig_def)

lemma load_snapshot_instance:
  assumes "load_snapshot env d new_ParseConfig w = (c, w')"
  shows "config_instance env c
       \<and> (currentConfig w' = currentConfig w \<or> currentConfig w' = Some c)"
  using assms
  by (auto simp: load_snapshot_def Let_def new_instance config_instance.constructed
        split: option.splits if_splits)

lemma current_hands_out_instances:
  assumes "\<forall>c. currentConfig w = Some c \<longrightarrow> config_instance env c"
    and "fst (DefaultController_current env w) = Returned c
       \<or> fst (DefaultController_current env w) = Promised (Inr c)"
  shows "config_instance env c"
proof (cases "currentConfig w")
  case (Some cached)
  then show ?thesis using assms by (simp add: DefaultController_current_def)
next
  case None
  then show ?thesis
    using assms(2) load_snapshot_instance [of env _ _ c]
    by (auto simp: DefaultController_current_def Let_def split: if_splits sum.splits prod.splits)
qed

lemma current_keeps_cache_instances:
  assumes "\<forall>c. currentConfig w = Some c \<longrightarrow> config_instance env c"
  shows "\<forall>c. currentConfig (snd (DefaultController_current env w)) = Some c \<longrightarrow> config_instance env c"
proof (cases "currentConfig w")
  case (Some cached)
  then show ?thesis using assms by (simp add: DefaultController_current_def)
next
  case None
  then show ?thesis
    using load_snapshot_instance [of env]
    by (fastforce simp: DefaultController_current_def Let_def split: if_splits sum.splits prod.splits)
qed

lemma get_hands_out_instances:
  assumes "\<forall>c. currentConfig w = Some c \<longrightarrow> config_instance env c"
  shows "(\<forall>c. fst (DefaultController_get env w) = Inr c \<longrightarrow> config_instance env c)
       \<and> (\<forall>c. currentConfig (snd (DefaultController_get env w)) = Some c \<longrightarrow> config_instance env c)"
  using assms
  by (auto simp: DefaultController_get_def Let_def config_instance.constructed
        split: sum.splits if_splits)

text \<open>
  C8, as stated, fails: on a fresh instance the attribute \<^verbatim>\<open>constructor\<close> is
  absent, yet \<^verbatim>\<open>escape("constructor")\<close> does not return the empty string: the read
  \<^verbatim>\<open>this._escapedAttributes[attr]\<close> finds the function \<^verbatim>\<open>Object\<close> on
  \<^verbatim>\<open>Object.prototype\<close>, which passes the test \<^verbatim>\<open>if (html)\<close> and is returned.
\<close>

theorem escape_inherited_counterexample:
  "''constructor'' \<notin> dom (attributes new_ParseConfig)
   \<and> fst (ParseConfig_escape example_env new_ParseConfig ''constructor'') = Inr (JFun ''Object'')"
  by (simp add: ParseConfig_escape_def escaped_lookup_def new_ParseConfig_def Object_prototype_def
        Let_def)

text \<open>
  C8, amended. For every Config instance and every attribute name that is not a
  property name of \<^verbatim>\<open>Object.prototype\<close>: when \<^verbatim>\<open>this.attributes[attr]\<close> is
  \<^verbatim>\<open>null\<close> or \<^verbatim>\<open>undefined\<close> (as it is for an absent attribute),
  \<^verbatim>\<open>escape(attr)\<close> returns the empty string. An instance is what the module
  constructs and then only touches through \<^verbatim>\<open>escape\<close>.
\<close>

theorem escape_nullish_empty:
  assumes "config_instance env c" and "attr \<notin> dom Object_prototype"
    and "nullish (ParseConfig_get c attr)"
  shows "fst (ParseConfig_escape env c attr) = Inr (JStr [])"
proof -
  have "\<not> truthy (escaped_lookup c attr)"
  proof (cases "escapedAttributes c attr")
    case None
    then show ?thesis using assms(2) by (simp add: escaped_lookup_own)
  next
    case (Some h)
    then have "h = []"
      using cache_consistentD [OF instance_consistent [OF assms(1)] Some] assms(3) by simp
    then show ?thesis using Some assms(2) by (simp add: escaped_lookup_own)
  qed
  then show ?thesis
    using assms(3) by (simp add: escape_miss_result)
qed

theorem escape_nullish_empty_witness:
  "nullish (ParseConfig_get null_attr_config ''n'')
   \<and> nullish (ParseConfig_get null_attr_config ''absent'')
   \<and> fst (ParseConfig_escape example_env null_attr_config ''n'') = Inr (JStr [])
   \<and> fst (ParseConfig_escape example_env null_attr_config ''absent'') = Inr (JStr [])"
proof -
  have inst: "config_instance example_env null_attr_config"
    unfolding null_attr_config_def by (rule plain_instance)
  have names: "''n'' \<notin> dom Object_prototype" "''absent'' \<notin> dom Object_prototype"
    by (simp_all add: Object_prototype_def dom_def)
  have n: "nullish (ParseConfig_get null_attr_config ''n'')"
    "nullish (ParseConfig_get null_attr_config ''absent'')"
    by (simp_all add: null_attr_config_def ParseConfig_get_def new_ParseConfig_def
          Object_prototype_def)
  show ?thesis
    using escape_nullish_empty [OF inst names(1) n(1)]
      escape_nullish_empty [OF inst names(2) n(2)] n by simp
qed

lemma lookup_after_store:
  "escaped_lookup (c\<lparr>escapedAttributes := (escapedAttributes c)(attr \<mapsto> s)\<rparr>) attr = JStr s"
  by (simp add: escaped_lookup_def)

text \<open>
  C4, as stated, fails: on an instance whose attribute \<open>e\<close> is the empty string,
  two calls of \<^verbatim>\<open>escape("e")\<close> both return the empty string, and both invoke the
  escaping function, since the test \<^verbatim>\<open>if (html)\<close> does not take a cached empty
  string for a hit.
\<close>

theorem escape_twice_counterexample:
  "escape_twice example_env empty_string_config ''e''
     = (Inr (JStr ''''), Inr (JStr ''''), ['''', ''''])"
  by (simp add: escape_twice_def ParseConfig_escape_def escape_miss_def escaped_lookup_def
        escaped_assign_def call_toString_def ParseConfig_get_def empty_string_config_def
        new_ParseConfig_def example_env_def html_escape_def Object_prototype_def Let_def)

text \<open>
  C4, amended. For every Config and every attribute name, two calls of
  \<^verbatim>\<open>escape(attr)\<close> in a row have the identical outcome: the same returned value,
  or the same exception. When that outcome is a string that is not empty, the
  escaping function is invoked at most once over the two calls (the second call
  returns the cached result without recomputing). For a name that is not a property
  name of \<^verbatim>\<open>Object.prototype\<close> the outcome is a string, unless
  \<^verbatim>\<open>val.toString()\<close> throws, and then it is what that call throws.
\<close>

theorem escape_twice_same_outcome:
  assumes "escape_twice env c attr = (r1, r2, spied)"
  shows "r2 = r1
       \<and> (\<forall>s. r1 = Inr (JStr s) \<longrightarrow> s \<noteq> [] \<longrightarrow> length spied \<le> 1)
       \<and> (attr \<notin> dom Object_prototype \<longrightarrow>
            (\<exists>s. r1 = Inr (JStr s))
            \<or> (\<exists>e. r1 = Inl e \<and> call_toString env (ParseConfig_get c attr) = Inl e))"
proof (cases "truthy (escaped_lookup c attr)")
  case True
  then have "escape_twice env c attr = (Inr (escaped_lookup c attr), Inr (escaped_lookup c attr), [])"
    by (simp add: escape_twice_def escape_hit_result)
  then have r: "r1 = Inr (escaped_lookup c attr)" "r2 = r1" "spied = []"
    using assms by simp_all
  have "attr \<notin> dom Object_prototype \<longrightarrow> (\<exists>s. escaped_lookup c attr = JStr s)"
  proof
    assume "attr \<notin> dom Object_prototype"
    then have "escaped_lookup c attr =
        (case escapedAttributes c attr of Some s \<Rightarrow> JStr s | None \<Rightarrow> JUndefined)"
      by (rule escaped_lookup_own)
    then show "\<exists>s. escaped_lookup c attr = JStr s"
      using True by (cases "escapedAttributes c attr") simp_all
  qed
  then show ?thesis using r by simp
next
  case False
  note miss = escape_miss_result [OF False, of env]
  show ?thesis
  proof (cases "nullish (ParseConfig_get c attr)")
    case True
    let ?c1 = "c\<lparr>escapedAttributes := (escapedAttributes c)(attr \<mapsto> [])\<rparr>"
    have first: "ParseConfig_escape env c attr = (Inr (JStr []), ?c1, [])"
      using miss True by simp
    have "\<not> truthy (escaped_lookup ?c1 attr)"
      by (simp add: lookup_after_store)
    then have second: "fst (ParseConfig_escape env ?c1 attr) = Inr (JStr [])"
      "snd (snd (ParseConfig_escape env ?c1 attr)) = []"
      using True by (simp_all add: escape_miss_result get_ignores_cache)
    have "escape_twice env c attr = (Inr (JStr []), Inr (JStr []), [])"
      using second by (simp add: escape_twice_def first split_beta)
    then show ?thesis using assms by auto
  next
    case notnull: False
    show ?thesis
    proof (cases "call_toString env (ParseConfig_get c attr)")
      case (Inl e)
      then have first: "ParseConfig_escape env c attr = (Inl e, c, [])"
        using miss notnull by simp
      then have "escape_twice env c attr = (Inl e, Inl e, [])"
        by (simp add: escape_twice_def)
      then show ?thesis using assms Inl by auto
    next
      case (Inr str)
      let ?s = "escape env str"
      let ?c1 = "c\<lparr>escapedAttributes := (escapedAttributes c)(attr \<mapsto> ?s)\<rparr>"
      have first: "ParseConfig_escape env c attr = (Inr (JStr ?s), ?c1, [str])"
        using miss notnull Inr by simp
      have second: "fst (ParseConfig_escape env ?c1 attr) = Inr (JStr ?s)"
        "?s \<noteq> [] \<longrightarrow> snd (snd (ParseConfig_escape env ?c1 attr)) = []"
      proof -
        show "fst (ParseConfig_escape env ?c1 attr) = Inr (JStr ?s)"
        proof (cases "?s = []")
          case True
          then have "\<not> truthy (escaped_lookup ?c1 attr)"
            by (simp add: lookup_after_store)
          then show ?thesis
            using notnull Inr True by (simp add: escape_miss_result get_ignores_cache)
        next
          case False
          then have "truthy (escaped_lookup ?c1 attr)"
            by (simp add: lookup_after_store)
          then show ?thesis
            by (simp add: escape_hit_result lookup_after_store)
        qed
        show "?s \<noteq> [] \<longrightarrow> snd (snd (ParseConfig_escape env ?c1 attr)) = []"
        proof
          assume "?s \<noteq> []"
          then have "truthy (escaped_lookup ?c1 attr)"
            by (simp add: lookup_after_store)
          then show "snd (snd (ParseConfig_escape env ?c1 attr)) = []"
            by (simp add: escape_hit_result)
        qed
      qed
      have "escape_twice env c attr =
          (Inr (JStr ?s), fst (ParseConfig_escape env ?c1 attr),
           [str] @ snd (snd (ParseConfig_escape env ?c1 attr)))"
        by (simp add: escape_twice_def first split_beta)
      then have "r1 = Inr (JStr ?s)" "r2 = Inr (JStr ?s)"
        "spied = [str] @ snd (snd (ParseConfig_escape env ?c1 attr))"
        using assms second(1) by simp_all
      then show ?thesis using second(2) by auto
    qed
  qed
qed

theorem escape_twice_same_outcome_witness:
  "escape_twice example_env markup_config ''m''
     = (Inr (JStr ''&lt;b&gt;''), Inr (JStr ''&lt;b&gt;''), [''<b>''])
   \<and> ''&lt;b&gt;'' \<noteq> []
   \<and> length [''<b>''] \<le> 1
   \<and> ''m'' \<notin> dom Object_prototype
   \<and> escape_twice example_env unprintable_config ''u''
     = (Inl (Thrown ''TypeError''), Inl (Thrown ''TypeError''), [])"
proof -
  have run: "escape_twice example_env markup_config ''m''
      = (Inr (JStr ''&lt;b&gt;''), Inr (JStr ''&lt;b&gt;''), [''<b>''])"
    by (simp add: escape_twice_def ParseConfig_escape_def escape_miss_def escaped_lookup_def
        escaped_assign_def call_toString_def ParseConfig_get_def markup_config_def
        new_ParseConfig_def example_env_def html_escape_def html_escape_char_def
        Object_prototype_def Let_def index_keys_def digit_char_def)
  have thrown: "escape_twice example_env unprintable_config ''u''
      = (Inl (Thrown ''TypeError''), Inl (Thrown ''TypeError''), [])"
    by (simp add: escape_twice_def ParseConfig_escape_def escape_miss_def escaped_lookup_def
        call_toString_def ParseConfig_get_def unprintable_config_def
        new_ParseConfig_def Object_prototype_def Let_def)
  have name: "''m'' \<notin> dom Object_prototype"
    by (simp add: Object_prototype_def dom_def)
  from escape_twice_same_outcome [OF run] escape_twice_same_outcome [OF thrown] run thrown name
  show ?thesis by simp
qed

section \<open>Properties of current()\<close>

lemma load_snapshot_calls:
  "load_snapshot env d c (w\<lparr>calls := l\<rparr>) =
     (fst (load_snapshot env d c w), (snd (load_snapshot env d c w))\<lparr>calls := l\<rparr>)"
  by (simp add: load_snapshot_def Let_def split: option.splits)

lemma current_calls_irrelevant:
  "fst (DefaultController_current env (w\<lparr>calls := l\<rparr>)) = fst (DefaultController_current env w)"
  by (simp add: DefaultController_current_def Let_def load_snapshot_calls split_beta
           split: option.splits sum.splits)

text \<open>
  C7. Whenever the process-wide cache \<open>currentConfig\<close> is populated,
  \<^verbatim>\<open>current()\<close> returns the cached Config at once (a returned value, not a
  promise) and leaves the state as it was; in particular it logs no call on the
  storage backend. This holds for every environment, so also when the storage
  backend is asynchronous.
\<close>

theorem current_returns_cache:
  "currentConfig w = Some c \<Longrightarrow>
     DefaultController_current env w = (Returned c, w)
     \<and> calls (snd (DefaultController_current env w)) = calls w"
  by (simp add: DefaultController_current_def)

theorem current_returns_cache_witness:
  "Storage_async (example_env\<lparr>Storage_async := True\<rparr>)
   \<and> DefaultController_current (example_env\<lparr>Storage_async := True\<rparr>)
       \<lparr>currentConfig = Some (new_ParseConfig\<lparr>attributes := [''a'' \<mapsto> JNum 1]\<rparr>),
        storage = [], calls = []\<rparr>
     = (Returned (new_ParseConfig\<lparr>attributes := [''a'' \<mapsto> JNum 1]\<rparr>),
        \<lparr>currentConfig = Some (new_ParseConfig\<lparr>attributes := [''a'' \<mapsto> JNum 1]\<rparr>),
         storage = [], calls = []\<rparr>)"
  using current_returns_cache [of
      "\<lparr>currentConfig = Some (new_ParseConfig\<lparr>attributes := [''a'' \<mapsto> JNum 1]\<rparr>),
        storage = [], calls = []\<rparr>"
      "new_ParseConfig\<lparr>attributes := [''a'' \<mapsto> JNum 1]\<rparr>"
      "example_env\<lparr>Storage_async := True\<rparr>"]
  by simp

lemma not_object_falls_through:
  "\<not> is_object json \<Longrightarrow> (truthy json \<and> typeof json = ''object'') = False"
  by (cases json) simp_all

lemma decodePayload_unusable:
  assumes "(\<exists>e. JSON_parse env d = Inl e)
      \<or> (\<exists>json. JSON_parse env d = Inr json \<and> \<not> is_object json)
      \<or> (\<exists>json e. JSON_parse env d = Inr json \<and> is_object json \<and> decode env json = Inl e)"
  shows "\<not> truthy (decodePayload env d)"
proof -
  consider e where "JSON_parse env d = Inl e"
    | json where "JSON_parse env d = Inr json" "\<not> is_object json"
    | json e where "JSON_parse env d = Inr json" "is_object json" "decode env json = Inl e"
    using assms by blast
  then show ?thesis
  proof cases
    case 1
    then show ?thesis by (simp add: decodePayload_def)
  next
    case 2
    then have "decodePayload env d = JUndefined"
      by (simp add: decodePayload_def not_object_falls_through del: typeof.simps truthy.simps)
    then show ?thesis by simp
  next
    case 3
    then show ?thesis by (simp add: decodePayload_def)
  qed
qed

lemma load_snapshot_unusable:
  assumes "snapshot = None \<or> (\<exists>d. snapshot = Some d \<and> \<not> truthy (decodePayload env d))"
  shows "load_snapshot env snapshot config w = (config, w)"
  using assms by (auto simp: load_snapshot_def Let_def)

lemma current_unusable_step:
  assumes "currentConfig w = None"
    and "\<not> Storage_async env \<Longrightarrow>
           Storage_getItem env (storage w) (Storage_generatePath env ''currentConfig'') = Some d"
    and "Storage_async env \<Longrightarrow>
           Storage_getItemAsync env (storage w) (Storage_generatePath env ''currentConfig'') = Inr (Some d)"
    and "\<not> truthy (decodePayload env d)"
  shows "DefaultController_current env w =
      (if Storage_async env then Promised (Inr new_ParseConfig) else Returned new_ParseConfig,
       w\<lparr>calls := calls w @
          [if Storage_async env then GetItemAsync (Storage_generatePath env ''currentConfig'')
           else GetItem (Storage_generatePath env ''currentConfig'')]\<rparr>)"
proof (cases "Storage_async env")
  case True
  then show ?thesis
    using assms(1,3,4)
    by (simp add: DefaultController_current_def CURRENT_CONFIG_KEY_def Let_def load_snapshot_unusable)
next
  case False
  then show ?thesis
    using assms(1,2,4)
    by (simp add: DefaultController_current_def CURRENT_CONFIG_KEY_def Let_def load_snapshot_unusable)
qed

lemma current_sync_hydrates:
  assumes "currentConfig w = None" and "\<not> Storage_async env"
    and "Storage_getItem env (storage w) (Storage_generatePath env ''currentConfig'') = Some d"
    and "d \<noteq> []"
    and "JSON_parse env d = Inr json" and "is_object json"
    and "decode env json = Inr attrs" and "truthy attrs"
  shows "DefaultController_current env w =
        (Returned (new_ParseConfig\<lparr>attributes := own_props attrs,
                     attributesPrototype := inherited_props env attrs\<rparr>),
         w\<lparr>currentConfig := Some (new_ParseConfig\<lparr>attributes := own_props attrs,
                     attributesPrototype := inherited_props env attrs\<rparr>),
           calls := calls w @ [GetItem (Storage_generatePath env ''currentConfig'')]\<rparr>)"
proof -
  have guard: "truthy json \<and> typeof json = ''object''"
    using assms(6) by (cases json) simp_all
  have payload: "decodePayload env d = attrs"
    using assms(5,7) guard by (simp add: decodePayload_def)
  show ?thesis
    using assms(1-4,8)
    by (simp add: DefaultController_current_def CURRENT_CONFIG_KEY_def Let_def
          load_snapshot_def payload)
qed

text \<open>
  C5. With an empty cache (the only case in which \<^verbatim>\<open>current()\<close> looks at the
  stored snapshot) and a synchronous storage backend: when the snapshot is absent,
  or \<^verbatim>\<open>JSON.parse\<close> throws on it, or it parses to something that is not an
  object, \<^verbatim>\<open>current()\<close> returns an empty Config as a plain value. No error
  comes out of it, the cache stays empty, and the only call it makes is the one
  \<^verbatim>\<open>getItem\<close>.
\<close>

theorem current_sync_unusable_snapshot:
  assumes "currentConfig w = None" and "\<not> Storage_async env"
    and "Storage_getItem env (storage w) (Storage_generatePath env ''currentConfig'') = snapshot"
    and "snapshot = None
       \<or> (\<exists>d. snapshot = Some d
             \<and> ((\<exists>e. JSON_parse env d = Inl e)
                \<or> (\<exists>json. JSON_parse env d = Inr json \<and> \<not> is_object json)))"
  shows "DefaultController_current env w =
       (Returned new_ParseConfig,
        w\<lparr>calls := calls w @ [GetItem (Storage_generatePath env ''currentConfig'')]\<rparr>)"
proof -
  have "snapshot = None \<or> (\<exists>d. snapshot = Some d \<and> \<not> truthy (decodePayload env d))"
    using assms(4) decodePayload_unusable [of env] by blast
  then have "load_snapshot env snapshot new_ParseConfig
        (w\<lparr>calls := calls w @ [GetItem (Storage_generatePath env ''currentConfig'')]\<rparr>)
      = (new_ParseConfig, w\<lparr>calls := calls w @ [GetItem (Storage_generatePath env ''currentConfig'')]\<rparr>)"
    by (rule load_snapshot_unusable)
  then show ?thesis
    using assms(1-3) by (simp add: DefaultController_current_def CURRENT_CONFIG_KEY_def Let_def)
qed

theorem current_sync_unusable_snapshot_witness:
  "DefaultController_current example_env (initial_world [])
     = (Returned new_ParseConfig,
        \<lparr>currentConfig = None, storage = [], calls = [GetItem ''Parse/app/currentConfig'']\<rparr>)
   \<and> DefaultController_current example_env (initial_world [(''Parse/app/currentConfig'', ''{oops'')])
     = (Returned new_ParseConfig,
        \<lparr>currentConfig = None, storage = [(''Parse/app/currentConfig'', ''{oops'')],
         calls = [GetItem ''Parse/app/currentConfig'']\<rparr>)
   \<and> DefaultController_current example_env (initial_world [(''Parse/app/currentConfig'', ''5'')])
     = (Returned new_ParseConfig,
        \<lparr>currentConfig = None, storage = [(''Parse/app/currentConfig'', ''5'')],
         calls = [GetItem ''Parse/app/currentConfig'']\<rparr>)"
proof -
  have sync: "\<not> Storage_async example_env"
    by (simp add: example_env_def)
  have path: "Storage_generatePath example_env ''currentConfig'' = ''Parse/app/currentConfig''"
    by (simp add: example_env_def)
  have malformed: "JSON_parse example_env ''{oops'' = Inl (Thrown ''SyntaxError'')"
    by (simp add: example_env_def example_parse_def snapshot_a1_def)
  have five: "JSON_parse example_env ''5'' = Inr (JNum 5)"
    by (simp add: example_env_def example_parse_def snapshot_a1_def)
  have "DefaultController_current example_env (initial_world [])
     = (Returned new_ParseConfig,
        \<lparr>currentConfig = None, storage = [], calls = [GetItem ''Parse/app/currentConfig'']\<rparr>)"
    using current_sync_unusable_snapshot [of "initial_world []" example_env None] sync
    by (simp add: path) (simp add: example_env_def initial_world_def)
  moreover have "DefaultController_current example_env (initial_world [(''Parse/app/currentConfig'', ''{oops'')])
     = (Returned new_ParseConfig,
        \<lparr>currentConfig = None, storage = [(''Parse/app/currentConfig'', ''{oops'')],
         calls = [GetItem ''Parse/app/currentConfig'']\<rparr>)"
    using current_sync_unusable_snapshot
      [of "initial_world [(''Parse/app/currentConfig'', ''{oops'')]" example_env "Some ''{oops''"] sync
    by (simp add: path malformed) (simp add: example_env_def initial_world_def)
  moreover have "DefaultController_current example_env (initial_world [(''Parse/app/currentConfig'', ''5'')])
     = (Returned new_ParseConfig,
        \<lparr>currentConfig = None, storage = [(''Parse/app/currentConfig'', ''5'')],
         calls = [GetItem ''Parse/app/currentConfig'']\<rparr>)"
    using current_sync_unusable_snapshot
      [of "initial_world [(''Parse/app/currentConfig'', ''5'')]" example_env "Some ''5''"] sync
    by (simp add: path five) (simp add: example_env_def initial_world_def)
  ultimately show ?thesis by simp
qed

text \<open>
  C6. With an empty cache and a synchronous storage backend that holds the
  snapshot \<^verbatim>\<open>{"a":1}\<close> (which \<^verbatim>\<open>JSON.parse\<close> reads as the object with
  \<open>a = 1\<close>, and \<^verbatim>\<open>decode\<close> leaves as it is), \<^verbatim>\<open>current()\<close> returns, as a
  plain value, a Config on which \<^verbatim>\<open>get("a")\<close> is \<open>1\<close>, and that Config is the
  cache afterwards.
\<close>

theorem current_sync_snapshot_a1:
  assumes "currentConfig w = None" and "\<not> Storage_async env"
    and "Storage_getItem env (storage w) (Storage_generatePath env ''currentConfig'') = Some snapshot_a1"
    and "JSON_parse env snapshot_a1 = Inr (JObj [(''a'', JNum 1)])"
    and "decode env (JObj [(''a'', JNum 1)]) = Inr (JObj [(''a'', JNum 1)])"
  shows "\<exists>config.
      DefaultController_current env w =
        (Returned config,
         w\<lparr>currentConfig := Some config,
           calls := calls w @ [GetItem (Storage_generatePath env ''currentConfig'')]\<rparr>)
    \<and> ParseConfig_get config ''a'' = JNum 1"
proof -
  have nonempty: "snapshot_a1 \<noteq> []"
    by (simp add: snapshot_a1_def)
  let ?config = "new_ParseConfig\<lparr>attributes := own_props (JObj [(''a'', JNum 1)]),
      attributesPrototype := inherited_props env (JObj [(''a'', JNum 1)])\<rparr>"
  have "DefaultController_current env w =
        (Returned ?config,
         w\<lparr>currentConfig := Some ?config,
           calls := calls w @ [GetItem (Storage_generatePath env ''currentConfig'')]\<rparr>)"
    using assms nonempty by (intro current_sync_hydrates) simp_all
  moreover have "ParseConfig_get ?config ''a'' = JNum 1"
    by (simp add: ParseConfig_get_def)
  ultimately show ?thesis by (intro exI [of _ ?config]) simp
qed

theorem current_sync_snapshot_a1_witness:
  "\<exists>config.
      DefaultController_current example_env (initial_world [(''Parse/app/currentConfig'', snapshot_a1)])
        = (Returned config,
           \<lparr>currentConfig = Some config,
            storage = [(''Parse/app/currentConfig'', snapshot_a1)],
            calls = [GetItem ''Parse/app/currentConfig'']\<rparr>)
    \<and> ParseConfig_get config ''a'' = JNum 1"
proof -
  have sync: "\<not> Storage_async example_env"
    by (simp add: example_env_def)
  have path: "Storage_generatePath example_env ''currentConfig'' = ''Parse/app/currentConfig''"
    by (simp add: example_env_def)
  have stored: "Storage_getItem example_env (storage (initial_world [(''Parse/app/currentConfig'', snapshot_a1)]))
      (Storage_generatePath example_env ''currentConfig'') = Some snapshot_a1"
    by (simp add: example_env_def initial_world_def)
  have parsed: "JSON_parse example_env snapshot_a1 = Inr (JObj [(''a'', JNum 1)])"
    by (simp add: example_env_def example_parse_def)
  have decoded: "decode example_env (JObj [(''a'', JNum 1)]) = Inr (JObj [(''a'', JNum 1)])"
    by (simp add: example_env_def)
  have empty: "currentConfig (initial_world [(''Parse/app/currentConfig'', snapshot_a1)]) = None"
    by (simp add: initial_world_def)
  from current_sync_snapshot_a1 [OF empty sync stored parsed decoded]
  show ?thesis
    by (simp add: path initial_world_def)
qed

text \<open>
  C10. When the cache is empty and the stored snapshot fails to parse, parses to a
  non-object, or fails to decode, \<^verbatim>\<open>current()\<close> hands back an empty Config
  (returned, or through a resolved promise when the storage is asynchronous) and
  leaves the cache empty. So after any number \<open>n\<close> of such calls the state is
  the initial one with \<open>n\<close> storage reads logged, and the next call reads and
  decodes again with the same outcome.
\<close>

theorem current_failed_snapshot_not_cached:
  assumes empty: "currentConfig w = None"
    and sync: "\<not> Storage_async env \<Longrightarrow>
           Storage_getItem env (storage w) (Storage_generatePath env ''currentConfig'') = Some d"
    and async: "Storage_async env \<Longrightarrow>
           Storage_getItemAsync env (storage w) (Storage_generatePath env ''currentConfig'') = Inr (Some d)"
    and fails: "(\<exists>e. JSON_parse env d = Inl e)
      \<or> (\<exists>json. JSON_parse env d = Inr json \<and> \<not> is_object json)
      \<or> (\<exists>json e. JSON_parse env d = Inr json \<and> is_object json \<and> decode env json = Inl e)"
  shows "((\<lambda>w. snd (DefaultController_current env w)) ^^ n) w =
           w\<lparr>calls := calls w @ replicate n
              (if Storage_async env then GetItemAsync (Storage_generatePath env ''currentConfig'')
               else GetItem (Storage_generatePath env ''currentConfig''))\<rparr>
       \<and> fst (DefaultController_current env (((\<lambda>w. snd (DefaultController_current env w)) ^^ n) w))
           = (if Storage_async env then Promised (Inr new_ParseConfig) else Returned new_ParseConfig)"
proof -
  let ?rc = "if Storage_async env then GetItemAsync (Storage_generatePath env ''currentConfig'')
             else GetItem (Storage_generatePath env ''currentConfig'')"
  let ?next = "\<lambda>w. snd (DefaultController_current env w)"
  have unusable: "\<not> truthy (decodePayload env d)"
    using fails by (rule decodePayload_unusable)
  have step: "DefaultController_current env (w\<lparr>calls := l\<rparr>) =
      (if Storage_async env then Promised (Inr new_ParseConfig) else Returned new_ParseConfig,
       w\<lparr>calls := l @ [?rc]\<rparr>)" for l
    using current_unusable_step [of "w\<lparr>calls := l\<rparr>" env d] empty sync async unusable
    by simp
  have iter: "(?next ^^ n) w = w\<lparr>calls := calls w @ replicate n ?rc\<rparr>"
  proof (induction n)
    case 0
    then show ?case by simp
  next
    case (Suc n)
    have "(?next ^^ Suc n) w = ?next ((?next ^^ n) w)" by simp
    also have "\<dots> = ?next (w\<lparr>calls := calls w @ replicate n ?rc\<rparr>)"
      by (simp only: Suc.IH)
    also have "\<dots> = w\<lparr>calls := (calls w @ replicate n ?rc) @ [?rc]\<rparr>"
      by (simp only: step snd_conv)
    also have "\<dots> = w\<lparr>calls := calls w @ replicate (Suc n) ?rc\<rparr>"
      by (simp add: replicate_append_same)
    finally show ?case .
  qed
  have "fst (DefaultController_current env ((?next ^^ n) w))
      = (if Storage_async env then Promised (Inr new_ParseConfig) else Returned new_ParseConfig)"
    by (simp only: iter step fst_conv)
  with iter show ?thesis by simp
qed

theorem current_failed_snapshot_not_cached_witness:
  "snd (DefaultController_current example_env
     (snd (DefaultController_current example_env
        (initial_world [(''Parse/app/currentConfig'', ''{oops'')]))))
     = \<lparr>currentConfig = None, storage = [(''Parse/app/currentConfig'', ''{oops'')],
        calls = [GetItem ''Parse/app/currentConfig'', GetItem ''Parse/app/currentConfig'']\<rparr>
   \<and> fst (DefaultController_current example_env
       (snd (DefaultController_current example_env
          (snd (DefaultController_current example_env
             (initial_world [(''Parse/app/currentConfig'', ''{oops'')]))))))
     = Returned new_ParseConfig
   \<and> snd (DefaultController_current async_env
       (initial_world [(''Parse/app/currentConfig'', ''{oops'')]))
     = \<lparr>currentConfig = None, storage = [(''Parse/app/currentConfig'', ''{oops'')],
        calls = [GetItemAsync ''Parse/app/currentConfig'']\<rparr>
   \<and> fst (DefaultController_current async_env
       (snd (DefaultController_current async_env
          (initial_world [(''Parse/app/currentConfig'', ''{oops'')]))))
     = Promised (Inr new_ParseConfig)"
proof -
  let ?w = "initial_world [(''Parse/app/currentConfig'', ''{oops'')]"
  have empty: "currentConfig ?w = None"
    by (simp add: initial_world_def)
  have malformed: "(\<exists>e. JSON_parse example_env ''{oops'' = Inl e)
      \<or> (\<exists>json. JSON_parse example_env ''{oops'' = Inr json \<and> \<not> is_object json)
      \<or> (\<exists>json e. JSON_parse example_env ''{oops'' = Inr json \<and> is_object json
            \<and> decode example_env json = Inl e)"
    by (simp add: example_env_def example_parse_def snapshot_a1_def)
  have malformed': "(\<exists>e. JSON_parse async_env ''{oops'' = Inl e)
      \<or> (\<exists>json. JSON_parse async_env ''{oops'' = Inr json \<and> \<not> is_object json)
      \<or> (\<exists>json e. JSON_parse async_env ''{oops'' = Inr json \<and> is_object json
            \<and> decode async_env json = Inl e)"
    by (simp add: async_env_def example_env_def example_parse_def snapshot_a1_def)
  have s: "\<not> Storage_async example_env"
    "Storage_getItem example_env (storage ?w) (Storage_generatePath example_env ''currentConfig'')
       = Some ''{oops''"
    "Storage_generatePath example_env ''currentConfig'' = ''Parse/app/currentConfig''"
    by (simp_all add: example_env_def initial_world_def)
  have a: "Storage_async async_env"
    "Storage_getItemAsync async_env (storage ?w) (Storage_generatePath async_env ''currentConfig'')
       = Inr (Some ''{oops'')"
    "Storage_generatePath async_env ''currentConfig'' = ''Parse/app/currentConfig''"
    by (simp_all add: async_env_def example_env_def initial_world_def)
  note sync_run = current_failed_snapshot_not_cached
    [of ?w example_env "''{oops''" "Suc (Suc 0)", OF empty _ _ malformed]
  note async_run = current_failed_snapshot_not_cached
    [of ?w async_env "''{oops''" "Suc 0", OF empty _ _ malformed']
  have "snd (DefaultController_current example_env (snd (DefaultController_current example_env ?w)))
     = \<lparr>currentConfig = None, storage = [(''Parse/app/currentConfig'', ''{oops'')],
        calls = [GetItem ''Parse/app/currentConfig'', GetItem ''Parse/app/currentConfig'']\<rparr>"
    using sync_run [THEN conjunct1] s by (simp add: initial_world_def)
  moreover have "fst (DefaultController_current example_env
       (snd (DefaultController_current example_env (snd (DefaultController_current example_env ?w)))))
     = Returned new_ParseConfig"
    using sync_run [THEN conjunct2] s by simp
  moreover have "snd (DefaultController_current async_env ?w)
     = \<lparr>currentConfig = None, storage = [(''Parse/app/currentConfig'', ''{oops'')],
        calls = [GetItemAsync ''Parse/app/currentConfig'']\<rparr>"
    using async_run [THEN conjunct1] a by (simp add: initial_world_def)
  moreover have "fst (DefaultController_current async_env (snd (DefaultController_current async_env ?w)))
     = Promised (Inr new_ParseConfig)"
    using async_run [THEN conjunct2] a by simp
  ultimately show ?thesis by simp
qed

section \<open>Properties of get()\<close>

text \<open>
  C2. When the request resolves with a response that is absent (\<^verbatim>\<open>null\<close> or
  \<^verbatim>\<open>undefined\<close>) or has no \<^verbatim>\<open>params\<close> field, \<^verbatim>\<open>get()\<close> rejects with a
  ParseError of kind INVALID_JSON, and neither the cache nor the storage changes: a
  \<^verbatim>\<open>current()\<close> after the call returns what it would have returned before it.
\<close>

theorem get_rejects_without_params:
  assumes "RESTController_request env ''GET'' ''config'' (JObj []) (JObj []) = Inr response"
    and "nullish response \<or> own_props response ''params'' = None"
  shows "fst (DefaultController_get env w)
           = Inl (ParseError INVALID_JSON ''Config JSON response invalid.'')
       \<and> currentConfig (snd (DefaultController_get env w)) = currentConfig w
       \<and> storage (snd (DefaultController_get env w)) = storage w
       \<and> fst (DefaultController_current env (snd (DefaultController_get env w)))
           = fst (DefaultController_current env w)"
proof -
  have falsy: "\<not> truthy response \<or> \<not> truthy (get_prop response ''params'')"
    using assms(2) by (cases response) (auto simp: get_prop_def)
  have run: "DefaultController_get env w =
      (Inl (ParseError INVALID_JSON ''Config JSON response invalid.''),
       w\<lparr>calls := calls w @ [Request ''GET'' ''config'' (JObj []) (JObj [])]\<rparr>)"
    using assms(1) falsy by (auto simp: DefaultController_get_def Let_def)
  show ?thesis
    by (simp add: run current_calls_irrelevant)
qed

theorem get_rejects_without_params_witness:
  "fst (DefaultController_get no_params_env (initial_world []))
           = Inl (ParseError INVALID_JSON ''Config JSON response invalid.'')
   \<and> currentConfig (snd (DefaultController_get no_params_env (initial_world []))) = None"
  using get_rejects_without_params [of no_params_env "JObj [(''result'', JNum 1)]" "initial_world []"]
  by (simp add: no_params_env_def initial_world_def)

lemma last_show_nat: "last (show_nat n) = digit_char (n mod 10)"
  by (subst show_nat.simps) simp

lemma digit_char_digit: "d < 10 \<Longrightarrow> digit_char d \<in> set ''0123456789''"
  unfolding digit_char_def by (rule nth_mem) simp

lemma show_nat_not_proto: "show_nat n \<noteq> ''__proto__''"
proof
  assume "show_nat n = ''__proto__''"
  then have "last (show_nat n) = CHR ''_''" by simp
  then have "digit_char (n mod 10) = CHR ''_''" by (simp only: last_show_nat)
  moreover have "digit_char (n mod 10) \<in> set ''0123456789''"
    by (rule digit_char_digit) simp
  ultimately show False by simp
qed

lemma proto_not_index: "''__proto__'' \<notin> set (index_keys n)"
proof
  assume "''__proto__'' \<in> set (index_keys n)"
  then obtain i where "show_nat i = ''__proto__''"
    unfolding index_keys_def by (auto simp del: show_nat.simps)
  then show False
    using show_nat_not_proto [of i] by (simp del: show_nat.simps)
qed

lemma enum_keys_proto_distinct:
  "''__proto__'' \<notin> set (enum_keys params) \<or> distinct (enum_keys params)"
  by (cases params) (simp_all add: proto_not_index)

lemma assign_other:
  "attr \<noteq> ''__proto__'' \<Longrightarrow> assign_attribute (own, p) attr v = (own(attr \<mapsto> v), p)"
  by (simp add: assign_attribute_def)

lemma assign_proto:
  "own ''__proto__'' = None \<Longrightarrow>
     \<exists>p'. assign_attribute (own, ObjectPrototype) ''__proto__'' v = (own, p')"
  by (simp add: assign_attribute_def)

lemma decode_fields_plain:
  assumes "\<forall>k\<in>set ks. \<exists>v. decode env (get_prop params k) = Inr v"
    and "''__proto__'' \<notin> set ks"
  shows "\<exists>attrs. decode_fields env params ks (own, p) = Inr (attrs, p)
          \<and> (\<forall>k\<in>set ks. decode env (get_prop params k) = Inr (the (attrs k)) \<and> attrs k \<noteq> None)
          \<and> (\<forall>k. k \<notin> set ks \<longrightarrow> attrs k = own k)"
  using assms
proof (induction ks arbitrary: own)
  case Nil
  then show ?case by simp
next
  case (Cons k ks)
  from Cons.prems obtain v where v: "decode env (get_prop params k) = Inr v" by auto
  from Cons.prems have k: "k \<noteq> ''__proto__''" by auto
  from Cons.prems have rest: "\<forall>k\<in>set ks. \<exists>v. decode env (get_prop params k) = Inr v"
    and noproto: "''__proto__'' \<notin> set ks" by simp_all
  from Cons.IH [OF rest noproto, of "own(k \<mapsto> v)"] obtain attrs where
    run: "decode_fields env params ks (own(k \<mapsto> v), p) = Inr (attrs, p)"
    and inside: "\<forall>k\<in>set ks. decode env (get_prop params k) = Inr (the (attrs k)) \<and> attrs k \<noteq> None"
    and outside: "\<forall>k'. k' \<notin> set ks \<longrightarrow> attrs k' = (own(k \<mapsto> v)) k'"
    by blast
  have "decode_fields env params (k # ks) (own, p) = Inr (attrs, p)"
    using v run k by (simp add: assign_other)
  moreover have "decode env (get_prop params k) = Inr (the (attrs k)) \<and> attrs k \<noteq> None"
  proof (cases "k \<in> set ks")
    case True
    then show ?thesis using inside by blast
  next
    case False
    then have "attrs k = Some v" using outside by simp
    then show ?thesis using v by simp
  qed
  moreover have "\<forall>k'. k' \<notin> set (k # ks) \<longrightarrow> attrs k' = own k'"
    using outside by simp
  ultimately show ?case using inside by auto
qed

lemma decode_fields_distinct:
  assumes "\<forall>k\<in>set ks. \<exists>v. decode env (get_prop params k) = Inr v"
    and "distinct ks" and "own ''__proto__'' = None"
  shows "\<exists>attrs p. decode_fields env params ks (own, ObjectPrototype) = Inr (attrs, p)
          \<and> (\<forall>k\<in>set ks - {''__proto__''}.
                decode env (get_prop params k) = Inr (the (attrs k)) \<and> attrs k \<noteq> None)
          \<and> (\<forall>k. k \<notin> set ks - {''__proto__''} \<longrightarrow> attrs k = own k)"
  using assms
proof (induction ks arbitrary: own)
  case Nil
  then show ?case by simp
next
  case (Cons k ks)
  from Cons.prems obtain v where v: "decode env (get_prop params k) = Inr v" by auto
  from Cons.prems have rest: "\<forall>k\<in>set ks. \<exists>v. decode env (get_prop params k) = Inr v"
    and dist: "distinct ks" and fresh: "k \<notin> set ks" by simp_all
  show ?case
  proof (cases "k = ''__proto__''")
    case True
    from Cons.prems(3) have "\<exists>p'. assign_attribute (own, ObjectPrototype) ''__proto__'' v = (own, p')"
      by (rule assign_proto)
    then obtain p' where
      step: "assign_attribute (own, ObjectPrototype) ''__proto__'' v = (own, p')" by blast
    from fresh True have noproto: "''__proto__'' \<notin> set ks" by simp
    from decode_fields_plain [OF rest noproto, of own p'] obtain attrs where
      run: "decode_fields env params ks (own, p') = Inr (attrs, p')"
      and inside: "\<forall>k\<in>set ks. decode env (get_prop params k) = Inr (the (attrs k)) \<and> attrs k \<noteq> None"
      and outside: "\<forall>k. k \<notin> set ks \<longrightarrow> attrs k = own k"
      by blast
    have "decode_fields env params (k # ks) (own, ObjectPrototype) = Inr (attrs, p')"
      using v run step True by simp
    moreover have "\<forall>k'\<in>set (k # ks) - {''__proto__''}.
        decode env (get_prop params k') = Inr (the (attrs k')) \<and> attrs k' \<noteq> None"
      using inside True by auto
    moreover have "\<forall>k'. k' \<notin> set (k # ks) - {''__proto__''} \<longrightarrow> attrs k' = own k'"
      using outside True noproto by auto
    ultimately show ?thesis by blast
  next
    case False
    have own': "(own(k \<mapsto> v)) ''__proto__'' = None"
      using Cons.prems(3) False by simp
    from Cons.IH [where own = "own(k \<mapsto> v)", OF rest dist own'] obtain attrs p' where
      run: "decode_fields env params ks (own(k \<mapsto> v), ObjectPrototype) = Inr (attrs, p')"
      and inside: "\<forall>k\<in>set ks - {''__proto__''}.
          decode env (get_prop params k) = Inr (the (attrs k)) \<and> attrs k \<noteq> None"
      and outside: "\<forall>k'. k' \<notin> set ks - {''__proto__''} \<longrightarrow> attrs k' = (own(k \<mapsto> v)) k'"
      by blast
    have "decode_fields env params (k # ks) (own, ObjectPrototype) = Inr (attrs, p')"
      using v run False by (simp add: assign_other)
    moreover have "attrs k = Some v"
      using outside fresh by simp
    then have "\<forall>k'\<in>set (k # ks) - {''__proto__''}.
        decode env (get_prop params k') = Inr (the (attrs k')) \<and> attrs k' \<noteq> None"
      using inside v by auto
    moreover have "\<forall>k'. k' \<notin> set (k # ks) - {''__proto__''} \<longrightarrow> attrs k' = own k'"
      using outside False by auto
    ultimately show ?thesis by blast
  qed
qed

lemma get_config_of_params:
  assumes "\<forall>k\<in>set (enum_keys params). \<exists>v. decode env (get_prop params k) = Inr v"
  shows "\<exists>attrs p.
       decode_fields env params (enum_keys params) (Map.empty, ObjectPrototype) = Inr (attrs, p)
     \<and> dom attrs = set (enum_keys params) - {''__proto__''}
     \<and> (\<forall>k\<in>set (enum_keys params) - {''__proto__''}.
           decode env (get_prop params k) = Inr (the (attrs k)) \<and> attrs k \<noteq> None)
     \<and> (''__proto__'' \<notin> set (enum_keys params) \<longrightarrow> p = ObjectPrototype)"
proof (cases "''__proto__'' \<in> set (enum_keys params)")
  case False
  from decode_fields_plain [OF assms False, of Map.empty ObjectPrototype] obtain attrs where
    run: "decode_fields env params (enum_keys params) (Map.empty, ObjectPrototype)
            = Inr (attrs, ObjectPrototype)"
    and inside: "\<forall>k\<in>set (enum_keys params).
        decode env (get_prop params k) = Inr (the (attrs k)) \<and> attrs k \<noteq> None"
    and outside: "\<forall>k. k \<notin> set (enum_keys params) \<longrightarrow> attrs k = None"
    by auto
  have "dom attrs = set (enum_keys params) - {''__proto__''}"
    using inside outside False by (auto simp: dom_def)
  then show ?thesis using run inside by auto
next
  case True
  then have "distinct (enum_keys params)"
    using enum_keys_proto_distinct [of params] by simp
  moreover have "(Map.empty :: string \<rightharpoonup> jsval) ''__proto__'' = None"
    by simp
  ultimately obtain attrs p where
    run: "decode_fields env params (enum_keys params) (Map.empty, ObjectPrototype) = Inr (attrs, p)"
    and inside: "\<forall>k\<in>set (enum_keys params) - {''__proto__''}.
        decode env (get_prop params k) = Inr (the (attrs k)) \<and> attrs k \<noteq> None"
    and outside: "\<forall>k. k \<notin> set (enum_keys params) - {''__proto__''} \<longrightarrow> attrs k = None"
    using decode_fields_distinct [where own = Map.empty and ks = "enum_keys params", OF assms]
    by auto
  have "dom attrs = set (enum_keys params) - {''__proto__''}"
  proof (rule set_eqI)
    fix k
    show "k \<in> dom attrs \<longleftrightarrow> k \<in> set (enum_keys params) - {''__proto__''}"
      using inside outside by (cases "k \<in> set (enum_keys params) - {''__proto__''}") auto
  qed
  then show ?thesis using run inside True by auto
qed

lemma get_after_decode:
  assumes "RESTController_request env ''GET'' ''config'' (JObj []) (JObj []) = Inr response"
    and "truthy response" and "get_prop response ''params'' = params" and "truthy params"
    and "decode_fields env params (enum_keys params) (Map.empty, ObjectPrototype) = Inr (attrs, p)"
  shows "DefaultController_get env w =
     (case Storage_setItemAsync env (storage w) (Storage_generatePath env ''currentConfig'')
             (JSON_stringify env params) of
        Inl e \<Rightarrow>
          (Inl e,
           \<lparr>currentConfig = Some (new_ParseConfig\<lparr>attributes := attrs,
                                    attributesPrototype := proto_props env p\<rparr>),
            storage = storage w,
            calls = calls w @ [Request ''GET'' ''config'' (JObj []) (JObj []),
              SetItemAsync (Storage_generatePath env ''currentConfig'') (JSON_stringify env params)]\<rparr>)
      | Inr st' \<Rightarrow>
          (Inr (new_ParseConfig\<lparr>attributes := attrs, attributesPrototype := proto_props env p\<rparr>),
           \<lparr>currentConfig = Some (new_ParseConfig\<lparr>attributes := attrs,
                                    attributesPrototype := proto_props env p\<rparr>),
            storage = st',
            calls = calls w @ [Request ''GET'' ''config'' (JObj []) (JObj []),
              SetItemAsync (Storage_generatePath env ''currentConfig'') (JSON_stringify env params)]\<rparr>))"
  using assms
  by (cases w) (simp add: DefaultController_get_def Let_def CURRENT_CONFIG_KEY_def split: sum.splits)

lemma is_object_truthy: "is_object v \<Longrightarrow> truthy v"
  by (cases v) simp_all

lemma get_own_attribute:
  "attrs k \<noteq> None \<Longrightarrow>
     ParseConfig_get (new_ParseConfig\<lparr>attributes := attrs, attributesPrototype := q\<rparr>) k
       = the (attrs k)"
  by (cases "attrs k") (simp_all add: ParseConfig_get_def)

lemma inherited_props_storage:
  "inherited_props (env\<lparr>Storage_setItemAsync := f\<rparr>) v = inherited_props env v"
  by (cases v) (simp_all add: inherited_props_def)

lemma proto_props_storage:
  "proto_props (env\<lparr>Storage_setItemAsync := f\<rparr>) p = proto_props env p"
  by (cases p) (auto simp: inherited_props_storage fun_eq_iff split: option.splits)

text \<open>The Config that \<^verbatim>\<open>get()\<close> builds from params whose fields all decode.\<close>

lemma get_builds_config:
  assumes req: "RESTController_request env ''GET'' ''config'' (JObj []) (JObj []) = Inr response"
    and resp: "truthy response"
    and par: "own_props response ''params'' = Some params"
    and tru: "truthy params"
    and dec: "\<forall>k\<in>set (enum_keys params). \<exists>v. decode env (get_prop params k) = Inr v"
  shows "\<exists>config.
      dom (attributes config) = set (enum_keys params) - {''__proto__''}
    \<and> (\<forall>k\<in>set (enum_keys params) - {''__proto__''}.
          decode env (get_prop params k) = Inr (ParseConfig_get config k))
    \<and> (''__proto__'' \<notin> set (enum_keys params) \<longrightarrow> attributesPrototype config = Object_prototype)
    \<and> escapedAttributes config = Map.empty
    \<and> (\<forall>w. DefaultController_get env w =
         (case Storage_setItemAsync env (storage w) (Storage_generatePath env ''currentConfig'')
                 (JSON_stringify env params) of
            Inl e \<Rightarrow>
              (Inl e,
               \<lparr>currentConfig = Some config, storage = storage w,
                calls = calls w @ [Request ''GET'' ''config'' (JObj []) (JObj []),
                  SetItemAsync (Storage_generatePath env ''currentConfig'')
                    (JSON_stringify env params)]\<rparr>)
          | Inr st' \<Rightarrow>
              (Inr config,
               \<lparr>currentConfig = Some config, storage = st',
                calls = calls w @ [Request ''GET'' ''config'' (JObj []) (JObj []),
                  SetItemAsync (Storage_generatePath env ''currentConfig'')
                    (JSON_stringify env params)]\<rparr>)))"
proof -
  from get_config_of_params [OF dec] obtain attrs p where
    run: "decode_fields env params (enum_keys params) (Map.empty, ObjectPrototype) = Inr (attrs, p)"
    and keys: "dom attrs = set (enum_keys params) - {''__proto__''}"
    and vals: "\<forall>k\<in>set (enum_keys params) - {''__proto__''}.
        decode env (get_prop params k) = Inr (the (attrs k)) \<and> attrs k \<noteq> None"
    and plain: "''__proto__'' \<notin> set (enum_keys params) \<longrightarrow> p = ObjectPrototype"
    by blast
  let ?config = "new_ParseConfig\<lparr>attributes := attrs, attributesPrototype := proto_props env p\<rparr>"
  have p: "get_prop response ''params'' = params"
    using par by (simp add: get_prop_def)
  have "dom (attributes ?config) = set (enum_keys params) - {''__proto__''}"
    using keys by simp
  moreover have "\<forall>k\<in>set (enum_keys params) - {''__proto__''}.
      decode env (get_prop params k) = Inr (ParseConfig_get ?config k)"
    using vals by (simp add: get_own_attribute)
  moreover have "''__proto__'' \<notin> set (enum_keys params) \<longrightarrow>
      attributesPrototype ?config = Object_prototype"
    using plain by auto
  moreover have "escapedAttributes ?config = Map.empty"
    by (simp add: new_ParseConfig_def)
  moreover have "\<forall>w. DefaultController_get env w =
         (case Storage_setItemAsync env (storage w) (Storage_generatePath env ''currentConfig'')
                 (JSON_stringify env params) of
            Inl e \<Rightarrow>
              (Inl e,
               \<lparr>currentConfig = Some ?config, storage = storage w,
                calls = calls w @ [Request ''GET'' ''config'' (JObj []) (JObj []),
                  SetItemAsync (Storage_generatePath env ''currentConfig'')
                    (JSON_stringify env params)]\<rparr>)
          | Inr st' \<Rightarrow>
              (Inr ?config,
               \<lparr>currentConfig = Some ?config, storage = st',
                calls = calls w @ [Request ''GET'' ''config'' (JObj []) (JObj []),
                  SetItemAsync (Storage_generatePath env ''currentConfig'')
                    (JSON_stringify env params)]\<rparr>))"
    using get_after_decode [OF req resp p tru run] by simp
  ultimately show ?thesis by blast
qed

lemma example_params:
  "RESTController_request example_env ''GET'' ''config'' (JObj []) (JObj []) = Inr example_response"
  "truthy example_response"
  "own_props example_response ''params'' = Some (JObj [(''a'', JNum 1), (''b'', JStr ''x'')])"
  "is_object (JObj [(''a'', JNum 1), (''b'', JStr ''x'')])"
  "\<forall>k\<in>set (enum_keys (JObj [(''a'', JNum 1), (''b'', JStr ''x'')])).
      \<exists>v. decode example_env (get_prop (JObj [(''a'', JNum 1), (''b'', JStr ''x'')]) k) = Inr v"
  by (simp_all add: example_env_def example_response_def)

lemma example_snapshot:
  "JSON_stringify example_env (JObj [(''a'', JNum 1), (''b'', JStr ''x'')]) = snapshot_a1_bx"
  by (simp add: example_env_def snapshot_a1_bx_def show_int_def digit_char_def)

lemma failing_params:
  "RESTController_request failing_storage_env ''GET'' ''config'' (JObj []) (JObj []) = Inr example_response"
  "truthy example_response"
  "own_props example_response ''params'' = Some (JObj [(''a'', JNum 1), (''b'', JStr ''x'')])"
  "truthy (JObj [(''a'', JNum 1), (''b'', JStr ''x'')])"
  "\<forall>k\<in>set (enum_keys (JObj [(''a'', JNum 1), (''b'', JStr ''x'')])).
      \<exists>v. decode failing_storage_env (get_prop (JObj [(''a'', JNum 1), (''b'', JStr ''x'')]) k) = Inr v"
  "Storage_setItemAsync failing_storage_env (storage (initial_world []))
     (Storage_generatePath failing_storage_env ''currentConfig'')
     (JSON_stringify failing_storage_env (JObj [(''a'', JNum 1), (''b'', JStr ''x'')]))
     = Inl (Thrown ''QuotaExceededError'')"
  by (simp_all add: failing_storage_env_def example_env_def example_response_def)

text \<open>
  C1, as stated, fails: for the params \<^verbatim>\<open>{"__proto__":5,"a":2}\<close> the loop visits
  the field \<^verbatim>\<open>__proto__\<close> and decodes it to \<open>5\<close>, but the Config that
  \<^verbatim>\<open>get()\<close> resolves with has the one attribute \<open>a\<close>: the assignment
  \<^verbatim>\<open>config.attributes["__proto__"] = 5\<close> reaches the prototype setter, which
  ignores a number, and \<^verbatim>\<open>get("__proto__")\<close> on the result is
  \<^verbatim>\<open>Object.prototype\<close>.
\<close>

theorem get_proto_field_counterexample:
  "enum_keys proto_params = [''__proto__'', ''a'']
   \<and> decode proto_params_env (get_prop proto_params ''__proto__'') = Inr (JNum 5)
   \<and> fst (DefaultController_get proto_params_env (initial_world []))
       = Inr (new_ParseConfig\<lparr>attributes := [''a'' \<mapsto> JNum 2]\<rparr>)
   \<and> ParseConfig_get (new_ParseConfig\<lparr>attributes := [''a'' \<mapsto> JNum 2]\<rparr>) ''__proto__''
       = JHost ''Object.prototype''"
  by (simp add: proto_params_def proto_params_env_def example_env_def initial_world_def
        DefaultController_get_def get_prop_def assign_attribute_def ParseConfig_get_def
        new_ParseConfig_def Object_prototype_def Let_def)

text \<open>
  C1, amended. When the request resolves with a response that has a \<^verbatim>\<open>params\<close>
  object and \<^verbatim>\<open>decode\<close> returns a value for each of its fields, \<^verbatim>\<open>get()\<close>
  builds a new Config whose attributes are the fields of \<^verbatim>\<open>params\<close> other than
  a field named \<^verbatim>\<open>__proto__\<close>, each holding the result of decoding that one
  field, with an empty escape cache (and, when no field is named \<^verbatim>\<open>__proto__\<close>,
  over the prototype of \<^verbatim>\<open>{}\<close>); it makes that Config the process-wide cache; it
  calls \<^verbatim>\<open>setItemAsync\<close> with the path generated from the key
  \<^verbatim>\<open>currentConfig\<close> and with \<^verbatim>\<open>JSON.stringify\<close> of the raw \<^verbatim>\<open>params\<close>; and
  its promise resolves with the new Config, on the storage the write produced,
  exactly when that write succeeds (if the write rejects, so does the promise). A
  \<^verbatim>\<open>current()\<close> after the call returns that Config.
\<close>

theorem get_resolves_with_decoded_params:
  assumes req: "RESTController_request env ''GET'' ''config'' (JObj []) (JObj []) = Inr response"
    and resp: "truthy response"
    and par: "own_props response ''params'' = Some params"
    and obj: "is_object params"
    and dec: "\<forall>k\<in>set (enum_keys params). \<exists>v. decode env (get_prop params k) = Inr v"
  shows "\<exists>config.
      dom (attributes config) = set (enum_keys params) - {''__proto__''}
    \<and> (\<forall>k\<in>set (enum_keys params) - {''__proto__''}.
          decode env (get_prop params k) = Inr (ParseConfig_get config k))
    \<and> (''__proto__'' \<notin> set (enum_keys params) \<longrightarrow> attributesPrototype config = Object_prototype)
    \<and> escapedAttributes config = Map.empty
    \<and> currentConfig (snd (DefaultController_get env w)) = Some config
    \<and> fst (DefaultController_current env (snd (DefaultController_get env w))) = Returned config
    \<and> calls (snd (DefaultController_get env w)) =
        calls w @ [Request ''GET'' ''config'' (JObj []) (JObj []),
          SetItemAsync (Storage_generatePath env ''currentConfig'') (JSON_stringify env params)]
    \<and> (case Storage_setItemAsync env (storage w) (Storage_generatePath env ''currentConfig'')
               (JSON_stringify env params) of
          Inr st' \<Rightarrow> fst (DefaultController_get env w) = Inr config
                     \<and> storage (snd (DefaultController_get env w)) = st'
        | Inl e \<Rightarrow> fst (DefaultController_get env w) = Inl e
                     \<and> storage (snd (DefaultController_get env w)) = storage w)"
proof -
  from get_builds_config [OF req resp par is_object_truthy [OF obj] dec] obtain config where
    keys: "dom (attributes config) = set (enum_keys params) - {''__proto__''}"
    and vals: "\<forall>k\<in>set (enum_keys params) - {''__proto__''}.
          decode env (get_prop params k) = Inr (ParseConfig_get config k)"
    and plain: "''__proto__'' \<notin> set (enum_keys params) \<longrightarrow>
          attributesPrototype config = Object_prototype"
    and cache: "escapedAttributes config = Map.empty"
    and g: "DefaultController_get env w =
         (case Storage_setItemAsync env (storage w) (Storage_generatePath env ''currentConfig'')
                 (JSON_stringify env params) of
            Inl e \<Rightarrow>
              (Inl e,
               \<lparr>currentConfig = Some config, storage = storage w,
                calls = calls w @ [Request ''GET'' ''config'' (JObj []) (JObj []),
                  SetItemAsync (Storage_generatePath env ''currentConfig'')
                    (JSON_stringify env params)]\<rparr>)
          | Inr st' \<Rightarrow>
              (Inr config,
               \<lparr>currentConfig = Some config, storage = st',
                calls = calls w @ [Request ''GET'' ''config'' (JObj []) (JObj []),
                  SetItemAsync (Storage_generatePath env ''currentConfig'')
                    (JSON_stringify env params)]\<rparr>))"
    by blast
  have "currentConfig (snd (DefaultController_get env w)) = Some config"
    by (simp add: g split: sum.splits)
  moreover have "fst (DefaultController_current env (snd (DefaultController_get env w)))
      = Returned config"
    by (simp add: g DefaultController_current_def split: sum.splits)
  moreover have "calls (snd (DefaultController_get env w)) =
        calls w @ [Request ''GET'' ''config'' (JObj []) (JObj []),
          SetItemAsync (Storage_generatePath env ''currentConfig'') (JSON_stringify env params)]"
    by (simp add: g split: sum.splits)
  moreover have "(case Storage_setItemAsync env (storage w) (Storage_generatePath env ''currentConfig'')
               (JSON_stringify env params) of
          Inr st' \<Rightarrow> fst (DefaultController_get env w) = Inr config
                     \<and> storage (snd (DefaultController_get env w)) = st'
        | Inl e \<Rightarrow> fst (DefaultController_get env w) = Inl e
                     \<and> storage (snd (DefaultController_get env w)) = storage w)"
    by (simp add: g split: sum.splits)
  ultimately show ?thesis using keys vals plain cache by blast
qed

theorem get_resolves_with_decoded_params_witness:
  "\<exists>config. fst (DefaultController_get example_env (initial_world [])) = Inr config
     \<and> currentConfig (snd (DefaultController_get example_env (initial_world []))) = Some config
     \<and> fst (DefaultController_current example_env
           (snd (DefaultController_get example_env (initial_world [])))) = Returned config
     \<and> storage (snd (DefaultController_get example_env (initial_world [])))
         = [(''Parse/app/currentConfig'', snapshot_a1_bx)]
     \<and> calls (snd (DefaultController_get example_env (initial_world [])))
         = [Request ''GET'' ''config'' (JObj []) (JObj []),
            SetItemAsync ''Parse/app/currentConfig'' snapshot_a1_bx]
     \<and> ParseConfig_get config ''a'' = JNum 1
     \<and> ParseConfig_get config ''b'' = JStr ''x''
     \<and> dom (attributes config) = {''a'', ''b''}"
proof -
  let ?params = "JObj [(''a'', JNum 1), (''b'', JStr ''x'')]"
  let ?run = "DefaultController_get example_env (initial_world [])"
  have path: "Storage_generatePath example_env ''currentConfig'' = ''Parse/app/currentConfig''"
    by (simp add: example_env_def)
  have wr: "Storage_setItemAsync example_env (storage (initial_world [])) ''Parse/app/currentConfig''
      snapshot_a1_bx = Inr [(''Parse/app/currentConfig'', snapshot_a1_bx)]"
    by (simp add: example_env_def initial_world_def mem_setItem_def)
  have dec: "decode example_env = Inr"
    by (simp add: example_env_def)
  from get_resolves_with_decoded_params [OF example_params, of "initial_world []"]
  show ?thesis
  proof (elim exE conjE)
  fix config
  assume
    c1: "dom (attributes config) = set (enum_keys ?params) - {''__proto__''}"
    and c2: "\<forall>k\<in>set (enum_keys ?params) - {''__proto__''}.
       decode example_env (get_prop ?params k) = Inr (ParseConfig_get config k)"
    and c3: "currentConfig (snd ?run) = Some config"
    and c3': "fst (DefaultController_current example_env (snd ?run)) = Returned config"
    and c4: "calls (snd ?run) =
       calls (initial_world []) @ [Request ''GET'' ''config'' (JObj []) (JObj []),
        SetItemAsync (Storage_generatePath example_env ''currentConfig'')
          (JSON_stringify example_env ?params)]"
    and c5: "(case Storage_setItemAsync example_env (storage (initial_world []))
                (Storage_generatePath example_env ''currentConfig'')
                (JSON_stringify example_env ?params) of
          Inr st' \<Rightarrow> fst ?run = Inr config \<and> storage (snd ?run) = st'
        | Inl e \<Rightarrow> fst ?run = Inl e \<and> storage (snd ?run) = storage (initial_world []))"
  have "ParseConfig_get config ''a'' = JNum 1" "ParseConfig_get config ''b'' = JStr ''x''"
    using c2 by (simp_all add: dec get_prop_def)
  moreover have "dom (attributes config) = {''a'', ''b''}"
    using c1 by simp
  moreover have "calls (snd ?run)
         = [Request ''GET'' ''config'' (JObj []) (JObj []),
            SetItemAsync ''Parse/app/currentConfig'' snapshot_a1_bx]"
    using c4 by (simp add: path example_snapshot initial_world_def)
  moreover have "fst ?run = Inr config
      \<and> storage (snd ?run) = [(''Parse/app/currentConfig'', snapshot_a1_bx)]"
    using c5 by (simp add: path example_snapshot wr)
  ultimately show ?thesis using c3 c3' by (intro exI [of _ config]) simp
  qed
qed

text \<open>
  C3. When the response has \<^verbatim>\<open>params\<close> (a truthy value, each field of which
  decodes) and the storage write rejects with \<open>e\<close>, the promise of \<^verbatim>\<open>get()\<close>
  rejects with that same \<open>e\<close>, so no Config reaches the caller, while
  \<open>currentConfig\<close> already holds the newly fetched Config: the very Config the
  call resolves with when the write goes through, whose attributes are the decoded
  fields of \<^verbatim>\<open>params\<close> (a field named \<^verbatim>\<open>__proto__\<close> aside).
\<close>

theorem get_storage_failure:
  assumes req: "RESTController_request env ''GET'' ''config'' (JObj []) (JObj []) = Inr response"
    and resp: "truthy response"
    and par: "own_props response ''params'' = Some params"
    and obj: "truthy params"
    and dec: "\<forall>k\<in>set (enum_keys params). \<exists>v. decode env (get_prop params k) = Inr v"
    and fail: "Storage_setItemAsync env (storage w) (Storage_generatePath env ''currentConfig'')
                 (JSON_stringify env params) = Inl e"
  shows "fst (DefaultController_get env w) = Inl e
    \<and> (\<exists>config. currentConfig (snd (DefaultController_get env w)) = Some config
          \<and> fst (DefaultController_get (env\<lparr>Storage_setItemAsync := (\<lambda>st k v. Inr st)\<rparr>) w)
              = Inr config
          \<and> dom (attributes config) = set (enum_keys params) - {''__proto__''}
          \<and> (\<forall>k\<in>set (enum_keys params) - {''__proto__''}.
                decode env (get_prop params k) = Inr (ParseConfig_get config k)))"
proof -
  let ?env' = "env\<lparr>Storage_setItemAsync := (\<lambda>st k v. Inr st)\<rparr>"
  from get_config_of_params [OF dec] obtain attrs p where
    run: "decode_fields env params (enum_keys params) (Map.empty, ObjectPrototype) = Inr (attrs, p)"
    and keys: "dom attrs = set (enum_keys params) - {''__proto__''}"
    and vals: "\<forall>k\<in>set (enum_keys params) - {''__proto__''}.
        decode env (get_prop params k) = Inr (the (attrs k)) \<and> attrs k \<noteq> None"
    by blast
  let ?config = "new_ParseConfig\<lparr>attributes := attrs, attributesPrototype := proto_props env p\<rparr>"
  have p: "get_prop response ''params'' = params"
    using par by (simp add: get_prop_def)
  note g = get_after_decode [OF req resp p obj run, of w]
  have same: "decode_fields ?env' params ks obj = decode_fields env params ks obj" for ks obj
    by (induction ks arbitrary: obj) (simp_all split: sum.splits)
  have props: "proto_props ?env' p = proto_props env p"
    by (rule proto_props_storage)
  have req': "RESTController_request ?env' ''GET'' ''config'' (JObj []) (JObj []) = Inr response"
    using req by simp
  have run': "decode_fields ?env' params (enum_keys params) (Map.empty, ObjectPrototype)
      = Inr (attrs, p)"
    using run by (simp only: same)
  note g' = get_after_decode [OF req' resp p obj run', of w]
  have "fst (DefaultController_get env w) = Inl e"
    by (simp add: g fail)
  moreover have "currentConfig (snd (DefaultController_get env w)) = Some ?config"
    by (simp add: g fail)
  moreover have "fst (DefaultController_get ?env' w) = Inr ?config"
    by (simp add: g' props)
  moreover have "dom (attributes ?config) = set (enum_keys params) - {''__proto__''}"
    using keys by simp
  moreover have "\<forall>k\<in>set (enum_keys params) - {''__proto__''}.
      decode env (get_prop params k) = Inr (ParseConfig_get ?config k)"
    using vals by (simp add: get_own_attribute)
  ultimately show ?thesis by blast
qed

theorem get_storage_failure_witness:
  "fst (DefaultController_get failing_storage_env (initial_world [])) = Inl (Thrown ''QuotaExceededError'')
   \<and> (\<exists>config. currentConfig (snd (DefaultController_get failing_storage_env (initial_world []))) = Some config
        \<and> ParseConfig_get config ''a'' = JNum 1
        \<and> ParseConfig_get config ''b'' = JStr ''x'')"
proof -
  let ?params = "JObj [(''a'', JNum 1), (''b'', JStr ''x'')]"
  let ?run = "DefaultController_get failing_storage_env (initial_world [])"
  have dec: "decode failing_storage_env = Inr"
    by (simp add: failing_storage_env_def example_env_def)
  from get_storage_failure [OF failing_params]
  show ?thesis
  proof (elim exE conjE)
    fix config
    assume c1: "fst ?run = Inl (Thrown ''QuotaExceededError'')"
      and c2: "currentConfig (snd ?run) = Some config"
      and c3: "\<forall>k\<in>set (enum_keys ?params) - {''__proto__''}.
         decode failing_storage_env (get_prop ?params k) = Inr (ParseConfig_get config k)"
    have "ParseConfig_get config ''a'' = JNum 1" "ParseConfig_get config ''b'' = JStr ''x''"
      using c3 by (simp_all add: dec get_prop_def)
    then show ?thesis using c1 c2 by simp
  qed
qed

end
